theory Spec2Isabelle
  imports Main "HOL-Library.Word"
begin

section \<open>Values, identifiers and the device\<close>

text \<open>
  The sketches address an attribute by the triple (endpoint id, cluster id, attribute id):
  \<open>uint16_t\<close>, \<open>uint32_t\<close>, \<open>uint32_t\<close>. A resolved \<open>attribute_t *\<close> is the triple it
  was resolved for, \<open>NULL\<close> is \<open>None\<close>.
\<close>

type_synonym path = "16 word \<times> 32 word \<times> 32 word"

datatype callback_type_t = PRE_UPDATE | POST_UPDATE | READ | WRITE

datatype esp_matter_val_type_t =
  ESP_MATTER_VAL_TYPE_INVALID | ESP_MATTER_VAL_TYPE_BOOLEAN | ESP_MATTER_VAL_TYPE_BITMAP8

text \<open>
  \<open>esp_matter_attr_val_t\<close> is a type tag and a union. The sketches use the members
  \<open>val.b\<close> (a \<open>bool\<close>) and \<open>val.u8\<close> (a \<open>uint8_t\<close>) only; both are the one byte at the
  start of the union, which is what the field \<open>val\<close> holds. \<open>val_b\<close> reads it as
  \<open>val.b\<close> (nonzero is true), \<open>set_b\<close> stores a \<open>bool\<close> (as 0 or 1).
\<close>

record esp_matter_attr_val_t =
  val_type :: esp_matter_val_type_t
  val :: "8 word"

definition val_b :: "esp_matter_attr_val_t \<Rightarrow> bool" where
  "val_b v = (val v \<noteq> 0)"

definition set_b :: "bool \<Rightarrow> esp_matter_attr_val_t \<Rightarrow> esp_matter_attr_val_t" where
  "set_b b v = v\<lparr>val := (if b then 1 else 0)\<rparr>"

definition val_u8 :: "esp_matter_attr_val_t \<Rightarrow> 8 word" where
  "val_u8 v = val v"

definition set_u8 :: "8 word \<Rightarrow> esp_matter_attr_val_t \<Rightarrow> esp_matter_attr_val_t" where
  "set_u8 w v = v\<lparr>val := w\<rparr>"

definition esp_matter_bool :: "bool \<Rightarrow> esp_matter_attr_val_t" where
  "esp_matter_bool b = \<lparr>val_type = ESP_MATTER_VAL_TYPE_BOOLEAN, val = (if b then 1 else 0)\<rparr>"

definition esp_matter_bitmap8 :: "8 word \<Rightarrow> esp_matter_attr_val_t" where
  "esp_matter_bitmap8 w = \<lparr>val_type = ESP_MATTER_VAL_TYPE_BITMAP8, val = w\<rparr>"

text \<open>\<open>esp_matter_invalid(NULL)\<close>: the invalid tag with a null pointer in the union.\<close>

definition esp_matter_invalid :: esp_matter_attr_val_t where
  "esp_matter_invalid = \<lparr>val_type = ESP_MATTER_VAL_TYPE_INVALID, val = 0\<rparr>"

type_synonym esp_err_t = int

definition ESP_OK :: esp_err_t where
  "ESP_OK = 0"

text \<open>The board's pin labels used by the sketches.\<close>

datatype pin = D0 | D1 | D8 | D9

text \<open>What \<open>Serial.print\<close> and \<open>Serial.println\<close> were called with.\<close>

datatype printed = Print_text string | Print_num nat | Println_num nat

text \<open>
  The device as the sketches see it: the framework's attribute storage, the calls of
  \<open>attribute::update\<close> the sketch has made, the calls of \<open>digitalWrite\<close> (pin and
  level, \<open>True\<close> for HIGH), and the serial output. The two logs of calls are kept in
  call order.
\<close>

record device =
  store :: "path \<rightharpoonup> esp_matter_attr_val_t"
  update_calls :: "(path \<times> esp_matter_attr_val_t) list"
  pin_writes :: "(pin \<times> bool) list"
  serial :: "printed list"

text \<open>
  Every sketch has the global \<open>int last_toggle\<close>. It only ever holds a value of
  \<open>millis()\<close> and is only read in \<open>millis() - last_toggle\<close>, which C++ computes in
  \<open>unsigned long\<close> (32 bits on this target), so it is kept as the 32-bit pattern.
\<close>

record sketch = device +
  last_toggle :: "32 word"

text \<open>The single-channel sketches also have the global \<open>attribute_t *attribute_ref\<close>.\<close>

record single = sketch +
  attribute_ref :: "path option"

record light = single +
  light_endpoint_id :: "16 word"

record curtain = single +
  curtain_endpoint_id :: "16 word"

record plug = sketch +
  plugin_unit_endpoint_id_1 :: "16 word"
  plugin_unit_endpoint_id_2 :: "16 word"
  attribute_ref_1 :: "path option"
  attribute_ref_2 :: "path option"

definition digitalWrite :: "pin \<Rightarrow> bool \<Rightarrow> 'a device_scheme \<Rightarrow> 'a device_scheme" where
  "digitalWrite p level s = s\<lparr>pin_writes := pin_writes s @ [(p, level)]\<rparr>"

definition Serial_print :: "string \<Rightarrow> 'a device_scheme \<Rightarrow> 'a device_scheme" where
  "Serial_print t s = s\<lparr>serial := serial s @ [Print_text t]\<rparr>"

definition Serial_print_num :: "nat \<Rightarrow> 'a device_scheme \<Rightarrow> 'a device_scheme" where
  "Serial_print_num n s = s\<lparr>serial := serial s @ [Print_num n]\<rparr>"

definition Serial_println_num :: "nat \<Rightarrow> 'a device_scheme \<Rightarrow> 'a device_scheme" where
  "Serial_println_num n s = s\<lparr>serial := serial s @ [Println_num n]\<rparr>"

section \<open>The framework's interface\<close>

text \<open>
  The framework (its headers, its attribute storage and its dispatch of callbacks) is not
  part of the sources. What the sketches use of it is defined here, after sections 4.1
  and 6 of the specification.
\<close>

text \<open>Modelled from the spec: \<open>OnOff::Id\<close>, the identifier of the on/off cluster in the
  framework's headers; the value is the one the Matter data model assigns.\<close>

definition OnOff_Id :: "32 word" where
  "OnOff_Id = 0x0006"

text \<open>Modelled from the spec: \<open>OnOff::Attributes::OnOff::Id\<close>, the identifier of the
  on/off attribute in that cluster.\<close>

definition OnOff_Attributes_OnOff_Id :: "32 word" where
  "OnOff_Attributes_OnOff_Id = 0x0000"

text \<open>Modelled from the spec: \<open>WindowCovering::Id\<close>, the identifier of the window
  covering cluster.\<close>

definition WindowCovering_Id :: "32 word" where
  "WindowCovering_Id = 0x0102"

text \<open>Modelled from the spec: \<open>WindowCovering::Attributes::OperationalStatus::Id\<close>, the
  identifier of the operational status attribute in that cluster.\<close>

definition WindowCovering_Attributes_OperationalStatus_Id :: "32 word" where
  "WindowCovering_Attributes_OperationalStatus_Id = 0x000A"

text \<open>
  The callback a sketch registers with \<open>node::create\<close>: it is given the phase, the
  triple and the value, and returns an error code.
\<close>

type_synonym 's callback =
  "callback_type_t \<Rightarrow> 16 word \<Rightarrow> 32 word \<Rightarrow> 32 word \<Rightarrow> esp_matter_attr_val_t \<Rightarrow> 's \<Rightarrow> esp_err_t \<times> 's"

text \<open>Modelled from the spec: \<open>get_attribute\<close>, which is
  \<open>attribute::get(cluster::get(endpoint, c), a)\<close> of the framework. It resolves the handle
  of an attribute, and fails (\<open>NULL\<close>) when the endpoint has no such cluster or attribute.\<close>

definition attribute_get :: "'a device_scheme \<Rightarrow> 16 word \<Rightarrow> 32 word \<Rightarrow> 32 word \<Rightarrow> path option" where
  "attribute_get s e c a = (if store s (e, c, a) = None then None else Some (e, c, a))"

text \<open>Modelled from the spec: \<open>get_value\<close>, which is \<open>attribute::get_val\<close> of the
  framework. It reads the present value of a handle from the framework's storage into
  the caller's variable, and leaves the variable as it is when there is nothing to read.\<close>

definition attribute_get_val ::
  "'a device_scheme \<Rightarrow> path option \<Rightarrow> esp_matter_attr_val_t \<Rightarrow> esp_matter_attr_val_t" where
  "attribute_get_val s r v =
     (case r of
        None \<Rightarrow> v
      | Some p \<Rightarrow> (case store s p of None \<Rightarrow> v | Some w \<Rightarrow> w))"

text \<open>Modelled from the spec: the framework's commit of a new value, for a remote write
  as for a local one. It notifies the registered callback in the pre-update phase,
  before the new value is stored, then stores the value and notifies again in the
  post-update phase. The specification does not say what a commit does when the triple
  has no attribute, or when the callback does not return \<open>ESP_OK\<close>: here the first
  changes nothing and the second stores nothing. The callbacks of the sketches always
  return \<open>ESP_OK\<close>.\<close>

definition commit ::
  "'a device_scheme callback \<Rightarrow> 16 word \<Rightarrow> 32 word \<Rightarrow> 32 word \<Rightarrow> esp_matter_attr_val_t
     \<Rightarrow> 'a device_scheme \<Rightarrow> 'a device_scheme" where
  "commit cb e c a v s =
     (if store s (e, c, a) = None then s
      else (case cb PRE_UPDATE e c a v s of
              (err, s1) \<Rightarrow>
                if err \<noteq> ESP_OK then s1
                else snd (cb POST_UPDATE e c a v (s1\<lparr>store := (store s1)((e, c, a) \<mapsto> v)\<rparr>))))"

text \<open>Modelled from the spec: \<open>set_value\<close>, which is \<open>attribute::update\<close> of the
  framework: a commit requested by the sketch. The call is recorded.\<close>

definition attribute_update ::
  "'a device_scheme callback \<Rightarrow> 16 word \<Rightarrow> 32 word \<Rightarrow> 32 word \<Rightarrow> esp_matter_attr_val_t
     \<Rightarrow> 'a device_scheme \<Rightarrow> 'a device_scheme" where
  "attribute_update cb e c a v s =
     commit cb e c a v (s\<lparr>update_calls := update_calls s @ [((e, c, a), v)]\<rparr>)"

text \<open>A framework with no callback registered: a commit only stores the value.\<close>

definition no_callback :: "'s callback" where
  "no_callback t e c a v s = (ESP_OK, s)"

section \<open>The light sketch\<close>

definition LED_PIN :: pin where
  "LED_PIN = D0"

definition TOGGLE_BUTTON_PIN :: pin where
  "TOGGLE_BUTTON_PIN = D9"

definition DEBOUNCE_DELAY :: "32 word" where
  "DEBOUNCE_DELAY = 500"

definition CLUSTER_ID :: "32 word" where
  "CLUSTER_ID = OnOff_Id"

definition ATTRIBUTE_ID :: "32 word" where
  "ATTRIBUTE_ID = OnOff_Attributes_OnOff_Id"

definition on_attribute_update_light :: "light callback" where
  "on_attribute_update_light type endpoint_id cluster_id attribute_id v s =
     (if type = PRE_UPDATE \<and> endpoint_id = light_endpoint_id s \<and>
         cluster_id = CLUSTER_ID \<and> attribute_id = ATTRIBUTE_ID
      then (let new_state = val_b v in (ESP_OK, digitalWrite LED_PIN new_state s))
      else (ESP_OK, s))"

text \<open>The globals before \<open>setup\<close>: C++ zero-initialises them.\<close>

definition boot_light :: light where
  "boot_light =
     \<lparr>store = Map.empty, update_calls = [], pin_writes = [], serial = [],
      last_toggle = 0, attribute_ref = None, light_endpoint_id = 0\<rparr>"

text \<open>
  \<open>setup\<close>: \<open>on_off_light::create\<close> makes an endpoint whose on/off attribute is
  \<open>false\<close>; \<open>eid\<close> is the endpoint id the framework gives it (\<open>endpoint::get_id\<close>).
\<close>

definition setup_light :: "16 word \<Rightarrow> light \<Rightarrow> light" where
  "setup_light eid s =
     (let s1 = s\<lparr>store := (store s)((eid, OnOff_Id, OnOff_Attributes_OnOff_Id) \<mapsto> esp_matter_bool False)\<rparr>;
          s2 = s1\<lparr>attribute_ref := attribute_get s1 eid CLUSTER_ID ATTRIBUTE_ID\<rparr>
      in s2\<lparr>light_endpoint_id := eid\<rparr>)"

definition get_onoff_attribute_value :: "light \<Rightarrow> esp_matter_attr_val_t" where
  "get_onoff_attribute_value s =
     (let onoff_value = esp_matter_invalid in attribute_get_val s (attribute_ref s) onoff_value)"

definition set_onoff_attribute_value ::
  "light callback \<Rightarrow> esp_matter_attr_val_t \<Rightarrow> light \<Rightarrow> light" where
  "set_onoff_attribute_value cb onoff_value s =
     attribute_update cb (light_endpoint_id s) CLUSTER_ID ATTRIBUTE_ID onoff_value s"

text \<open>
  \<open>loop\<close>, entered when \<open>millis()\<close> is \<open>now\<close> and \<open>digitalRead(TOGGLE_BUTTON_PIN)\<close>
  is \<open>level\<close> (\<open>True\<close> for HIGH). A pass calls \<open>millis()\<close> twice, in the test and
  in the assignment to \<open>last_toggle\<close>; both calls are taken to give \<open>now\<close>. The
  subtraction and the comparison are those of \<open>unsigned long\<close>, of 32 bits on the
  target. \<open>cb\<close> is the callback the framework has registered; \<open>loop_light\<close> is the
  loop of the sketch, which registers \<open>on_attribute_update\<close> in \<open>setup\<close>.
\<close>

definition loop_light_with :: "light callback \<Rightarrow> 32 word \<Rightarrow> bool \<Rightarrow> light \<Rightarrow> light" where
  "loop_light_with cb now level s =
     (if now - last_toggle s > DEBOUNCE_DELAY then
        (if \<not> level then
           (let s1 = s\<lparr>last_toggle := now\<rparr>;
                onoff_value = get_onoff_attribute_value s1;
                onoff_value = set_b (\<not> val_b onoff_value) onoff_value
            in set_onoff_attribute_value cb onoff_value s1)
         else s)
      else s)"

definition loop_light :: "32 word \<Rightarrow> bool \<Rightarrow> light \<Rightarrow> light" where
  "loop_light = loop_light_with on_attribute_update_light"

section \<open>The sketch with two plug-in unit endpoints\<close>

definition LED_PIN_1 :: pin where
  "LED_PIN_1 = D0"

definition LED_PIN_2 :: pin where
  "LED_PIN_2 = D1"

definition TOGGLE_BUTTON_PIN_1 :: pin where
  "TOGGLE_BUTTON_PIN_1 = D9"

definition TOGGLE_BUTTON_PIN_2 :: pin where
  "TOGGLE_BUTTON_PIN_2 = D8"

definition on_attribute_update_plug :: "plug callback" where
  "on_attribute_update_plug type endpoint_id cluster_id attribute_id v s =
     (if type = PRE_UPDATE \<and> cluster_id = CLUSTER_ID \<and> attribute_id = ATTRIBUTE_ID
      then (let new_state = val_b v in
              if endpoint_id = plugin_unit_endpoint_id_1 s
              then (ESP_OK, digitalWrite LED_PIN_1 new_state s)
              else if endpoint_id = plugin_unit_endpoint_id_2 s
              then (ESP_OK, digitalWrite LED_PIN_2 new_state s)
              else (ESP_OK, s))
      else (ESP_OK, s))"

definition boot_plug :: plug where
  "boot_plug =
     \<lparr>store = Map.empty, update_calls = [], pin_writes = [], serial = [],
      last_toggle = 0,
      plugin_unit_endpoint_id_1 = 0, plugin_unit_endpoint_id_2 = 0,
      attribute_ref_1 = None, attribute_ref_2 = None\<rparr>"

text \<open>
  \<open>setup\<close>: two endpoints made by \<open>on_off_plugin_unit::create\<close>, both with the on/off
  attribute \<open>false\<close>; \<open>eid_1\<close> and \<open>eid_2\<close> are the ids the framework gives them.
\<close>

definition setup_plug :: "16 word \<Rightarrow> 16 word \<Rightarrow> plug \<Rightarrow> plug" where
  "setup_plug eid_1 eid_2 s =
     (let s1 = s\<lparr>store := (store s)((eid_1, OnOff_Id, OnOff_Attributes_OnOff_Id) \<mapsto> esp_matter_bool False)\<rparr>;
          s2 = s1\<lparr>store := (store s1)((eid_2, OnOff_Id, OnOff_Attributes_OnOff_Id) \<mapsto> esp_matter_bool False)\<rparr>;
          s3 = s2\<lparr>attribute_ref_1 := attribute_get s2 eid_1 CLUSTER_ID ATTRIBUTE_ID\<rparr>;
          s4 = s3\<lparr>attribute_ref_2 := attribute_get s3 eid_2 CLUSTER_ID ATTRIBUTE_ID\<rparr>;
          s5 = s4\<lparr>plugin_unit_endpoint_id_1 := eid_1\<rparr>
      in s5\<lparr>plugin_unit_endpoint_id_2 := eid_2\<rparr>)"

definition get_onoff_attribute_value_plug :: "plug \<Rightarrow> path option \<Rightarrow> esp_matter_attr_val_t" where
  "get_onoff_attribute_value_plug s ref =
     (let onoff_value = esp_matter_invalid in attribute_get_val s ref onoff_value)"

definition set_onoff_attribute_value_plug ::
  "plug callback \<Rightarrow> esp_matter_attr_val_t \<Rightarrow> 16 word \<Rightarrow> plug \<Rightarrow> plug" where
  "set_onoff_attribute_value_plug cb onoff_value plugin_unit_endpoint_id s =
     attribute_update cb plugin_unit_endpoint_id CLUSTER_ID ATTRIBUTE_ID onoff_value s"

text \<open>
  \<open>loop\<close>, entered when \<open>millis()\<close> is \<open>now\<close>, \<open>digitalRead(TOGGLE_BUTTON_PIN_1)\<close> is
  \<open>level_1\<close> and \<open>digitalRead(TOGGLE_BUTTON_PIN_2)\<close> is \<open>level_2\<close>. The elapsed time is
  tested once, before the first button is read.
\<close>

definition loop_plug_with :: "plug callback \<Rightarrow> 32 word \<Rightarrow> bool \<Rightarrow> bool \<Rightarrow> plug \<Rightarrow> plug" where
  "loop_plug_with cb now level_1 level_2 s =
     (if now - last_toggle s > DEBOUNCE_DELAY then
        (let s2 =
           (if \<not> level_1 then
              (let s1 = s\<lparr>last_toggle := now\<rparr>;
                   onoff_value = get_onoff_attribute_value_plug s1 (attribute_ref_1 s1);
                   onoff_value = set_b (\<not> val_b onoff_value) onoff_value
               in set_onoff_attribute_value_plug cb onoff_value (plugin_unit_endpoint_id_1 s1) s1)
            else s)
         in
           (if \<not> level_2 then
              (let s3 = s2\<lparr>last_toggle := now\<rparr>;
                   onoff_value = get_onoff_attribute_value_plug s3 (attribute_ref_2 s3);
                   onoff_value = set_b (\<not> val_b onoff_value) onoff_value
               in set_onoff_attribute_value_plug cb onoff_value (plugin_unit_endpoint_id_2 s3) s3)
            else s2))
      else s)"

definition loop_plug :: "32 word \<Rightarrow> bool \<Rightarrow> bool \<Rightarrow> plug \<Rightarrow> plug" where
  "loop_plug = loop_plug_with on_attribute_update_plug"

section \<open>The curtain sketch\<close>

text \<open>
  The curtain sketch was made from the light sketch. It declares
  \<open>CURTAIN_CLUSTER_ID\<close> and \<open>CURTAIN_ATTRIBUTE_ID\<close>, leaves the declarations of
  \<open>CLUSTER_ID\<close> and \<open>ATTRIBUTE_ID\<close> in a comment, and still names the latter two in
  \<open>setup\<close> and in \<open>set_curtain_attribute_value\<close>; they are the light sketch's constants.
  In \<open>on_attribute_update\<close> the call of \<open>digitalWrite\<close> is in a comment; the
  variable \<open>new_state\<close> is the byte of the union read through \<open>val.b\<close>, and
  \<open>Serial.println\<close> prints that byte as a number.
\<close>

definition CURTAIN_CLUSTER_ID :: "32 word" where
  "CURTAIN_CLUSTER_ID = WindowCovering_Id"

definition CURTAIN_ATTRIBUTE_ID :: "32 word" where
  "CURTAIN_ATTRIBUTE_ID = WindowCovering_Attributes_OperationalStatus_Id"

definition on_attribute_update_curtain :: "curtain callback" where
  "on_attribute_update_curtain type endpoint_id cluster_id attribute_id v s =
     (if type = PRE_UPDATE then
        (let s1 = Serial_print ''Update on endpoint: '' s;
             s2 = Serial_print_num (unat endpoint_id) s1;
             s3 = Serial_print '' cluster: '' s2;
             s4 = Serial_print_num (unat cluster_id) s3;
             s5 = Serial_print '' attribute: '' s4;
             s6 = Serial_println_num (unat attribute_id) s5
         in
           if endpoint_id = curtain_endpoint_id s6 \<and>
              cluster_id = CURTAIN_CLUSTER_ID \<and> attribute_id = CURTAIN_ATTRIBUTE_ID
           then (let new_state = val v;
                     s7 = Serial_print ''New state: '' s6;
                     s8 = Serial_println_num (unat new_state) s7
                 in (ESP_OK, s8))
           else (ESP_OK, s6))
      else (ESP_OK, s))"

definition boot_curtain :: curtain where
  "boot_curtain =
     \<lparr>store = Map.empty, update_calls = [], pin_writes = [], serial = [],
      last_toggle = 0, attribute_ref = None, curtain_endpoint_id = 0\<rparr>"

text \<open>
  \<open>setup\<close>: \<open>window_covering_device::create\<close> makes an endpoint with the window
  covering cluster, whose operational status is \<open>0b000000\<close>.
\<close>

definition setup_curtain :: "16 word \<Rightarrow> curtain \<Rightarrow> curtain" where
  "setup_curtain eid s =
     (let s1 = s\<lparr>store := (store s)((eid, WindowCovering_Id, WindowCovering_Attributes_OperationalStatus_Id)
                      \<mapsto> esp_matter_bitmap8 0)\<rparr>;
          s2 = s1\<lparr>attribute_ref := attribute_get s1 eid CLUSTER_ID ATTRIBUTE_ID\<rparr>
      in s2\<lparr>curtain_endpoint_id := eid\<rparr>)"

definition get_curtain_attribute_value :: "curtain \<Rightarrow> esp_matter_attr_val_t" where
  "get_curtain_attribute_value s =
     (let curtain_value = esp_matter_invalid in attribute_get_val s (attribute_ref s) curtain_value)"

definition set_curtain_attribute_value ::
  "curtain callback \<Rightarrow> esp_matter_attr_val_t \<Rightarrow> curtain \<Rightarrow> curtain" where
  "set_curtain_attribute_value cb curtain_value s =
     attribute_update cb (curtain_endpoint_id s) CLUSTER_ID ATTRIBUTE_ID curtain_value s"

definition loop_curtain_with :: "curtain callback \<Rightarrow> 32 word \<Rightarrow> bool \<Rightarrow> curtain \<Rightarrow> curtain" where
  "loop_curtain_with cb now level s =
     (if now - last_toggle s > DEBOUNCE_DELAY then
        (if \<not> level then
           (let s1 = s\<lparr>last_toggle := now\<rparr>;
                curtain_value = get_curtain_attribute_value s1;
                curtain_value = set_u8 (if val_u8 curtain_value = 0 then 1 else 0) curtain_value
            in set_curtain_attribute_value cb curtain_value s1)
         else s)
      else s)"

definition loop_curtain :: "32 word \<Rightarrow> bool \<Rightarrow> curtain \<Rightarrow> curtain" where
  "loop_curtain = loop_curtain_with on_attribute_update_curtain"

section \<open>Runs of a device\<close>

text \<open>
  A device runs \<open>loop\<close> again and again while the framework commits the writes of remote
  controllers. An event is one pass of \<open>loop\<close>, entered \<open>t\<close> milliseconds after boot
  with the button levels \<open>b\<close>, or one remote write. \<open>millis()\<close> is an
  \<open>unsigned long\<close> of 32 bits: it wraps around every \<open>2 ^ 32\<close> milliseconds.
\<close>

datatype 'b event =
  Poll nat 'b
| Remote "16 word" "32 word" "32 word" esp_matter_attr_val_t

definition millis :: "nat \<Rightarrow> 32 word" where
  "millis t = of_nat t"

fun step_light :: "bool event \<Rightarrow> light \<Rightarrow> light" where
  "step_light (Poll t level) s = loop_light (millis t) level s"
| "step_light (Remote e c a v) s = commit on_attribute_update_light e c a v s"

fun run_light :: "bool event list \<Rightarrow> light \<Rightarrow> light" where
  "run_light [] s = s"
| "run_light (ev # evs) s = run_light evs (step_light ev s)"

fun step_plug :: "(bool \<times> bool) event \<Rightarrow> plug \<Rightarrow> plug" where
  "step_plug (Poll t levels) s = loop_plug (millis t) (fst levels) (snd levels) s"
| "step_plug (Remote e c a v) s = commit on_attribute_update_plug e c a v s"

fun run_plug :: "(bool \<times> bool) event list \<Rightarrow> plug \<Rightarrow> plug" where
  "run_plug [] s = s"
| "run_plug (ev # evs) s = run_plug evs (step_plug ev s)"

fun step_curtain :: "bool event \<Rightarrow> curtain \<Rightarrow> curtain" where
  "step_curtain (Poll t level) s = loop_curtain (millis t) level s"
| "step_curtain (Remote e c a v) s = commit on_attribute_update_curtain e c a v s"

fun run_curtain :: "bool event list \<Rightarrow> curtain \<Rightarrow> curtain" where
  "run_curtain [] s = s"
| "run_curtain (ev # evs) s = run_curtain evs (step_curtain ev s)"

text \<open>The times of the passes of \<open>loop\<close> in a run, in order.\<close>

fun poll_times :: "'b event list \<Rightarrow> nat list" where
  "poll_times [] = []"
| "poll_times (Poll t b # evs) = t # poll_times evs"
| "poll_times (Remote e c a v # evs) = poll_times evs"

text \<open>
  A toggle is a call of \<open>attribute::update\<close> by \<open>loop\<close>. \<open>new_calls s s'\<close> are the
  calls made between the states \<open>s\<close> and \<open>s'\<close>; the triggers of a run are the toggles
  with the time of the pass that made them and the endpoint they were for.
\<close>

definition new_calls ::
  "'a device_scheme \<Rightarrow> 'a device_scheme \<Rightarrow> (path \<times> esp_matter_attr_val_t) list" where
  "new_calls s s' = drop (length (update_calls s)) (update_calls s')"

fun triggers_light :: "bool event list \<Rightarrow> light \<Rightarrow> (nat \<times> 16 word) list" where
  "triggers_light [] s = []"
| "triggers_light (Poll t level # evs) s =
     map (\<lambda>call. (t, fst (fst call))) (new_calls s (step_light (Poll t level) s))
     @ triggers_light evs (step_light (Poll t level) s)"
| "triggers_light (Remote e c a v # evs) s = triggers_light evs (step_light (Remote e c a v) s)"

fun triggers_plug :: "(bool \<times> bool) event list \<Rightarrow> plug \<Rightarrow> (nat \<times> 16 word) list" where
  "triggers_plug [] s = []"
| "triggers_plug (Poll t levels # evs) s =
     map (\<lambda>call. (t, fst (fst call))) (new_calls s (step_plug (Poll t levels) s))
     @ triggers_plug evs (step_plug (Poll t levels) s)"
| "triggers_plug (Remote e c a v # evs) s = triggers_plug evs (step_plug (Remote e c a v) s)"

text \<open>The times at which endpoint \<open>e\<close> was toggled.\<close>

definition fired_at :: "16 word \<Rightarrow> (nat \<times> 16 word) list \<Rightarrow> nat list" where
  "fired_at e trs = map fst (filter (\<lambda>tr. snd tr = e) trs)"

text \<open>Each time of the list is more than \<open>d\<close> after the one before it.\<close>

fun spaced :: "nat \<Rightarrow> nat list \<Rightarrow> bool" where
  "spaced d [] = True"
| "spaced d [x] = True"
| "spaced d (x # y # ys) = (x + d < y \<and> spaced d (y # ys))"

text \<open>The number of toggles a run makes.\<close>

definition toggles_light :: "bool event list \<Rightarrow> light \<Rightarrow> nat" where
  "toggles_light evs s = length (new_calls s (run_light evs s))"

text \<open>
  A button held down while \<open>loop\<close> passes at the times \<open>ts\<close>. The passes leave out no
  millisecond when each time is the one before it or the next.
\<close>

definition held :: "nat list \<Rightarrow> bool event list" where
  "held ts = map (\<lambda>t. Poll t False) ts"

fun dense :: "nat list \<Rightarrow> bool" where
  "dense [] = True"
| "dense [t] = True"
| "dense (t # t' # ts) = ((t' = t \<or> t' = Suc t) \<and> dense (t' # ts))"

section \<open>Bound channels\<close>

text \<open>
  A channel is bound when its handle was resolved for the triple the setter writes and
  the attribute exists in the framework's storage.
\<close>

definition bound_light :: "light \<Rightarrow> bool" where
  "bound_light s =
     (attribute_ref s = Some (light_endpoint_id s, CLUSTER_ID, ATTRIBUTE_ID) \<and>
      store s (light_endpoint_id s, CLUSTER_ID, ATTRIBUTE_ID) \<noteq> None)"

definition bound_plug_1 :: "plug \<Rightarrow> bool" where
  "bound_plug_1 s =
     (attribute_ref_1 s = Some (plugin_unit_endpoint_id_1 s, CLUSTER_ID, ATTRIBUTE_ID) \<and>
      store s (plugin_unit_endpoint_id_1 s, CLUSTER_ID, ATTRIBUTE_ID) \<noteq> None)"

definition bound_plug_2 :: "plug \<Rightarrow> bool" where
  "bound_plug_2 s =
     (attribute_ref_2 s = Some (plugin_unit_endpoint_id_2 s, CLUSTER_ID, ATTRIBUTE_ID) \<and>
      store s (plugin_unit_endpoint_id_2 s, CLUSTER_ID, ATTRIBUTE_ID) \<noteq> None)"

section \<open>The loop under interleaving\<close>

text \<open>
  \<open>loop\<close> of the light sketch reads the attribute and writes it back in two calls of
  the framework, and holds the value read in the local variable \<open>onoff_value\<close> in
  between. Section 5 of the specification lets the framework commit a remote write at
  any moment, also between the two calls. An action is the first half of a pass of
  \<open>loop\<close> (up to and including the read), its second half (the inversion and the
  write), or a remote write; the second component of the state is the local variable
  while \<open>loop\<close> is between its halves.
\<close>

datatype action =
  Loop_read "32 word" bool
| Loop_write
| Remote_write "16 word" "32 word" "32 word" esp_matter_attr_val_t

fun act_light ::
  "action \<Rightarrow> light \<times> esp_matter_attr_val_t option \<Rightarrow> light \<times> esp_matter_attr_val_t option" where
  "act_light (Loop_read now level) (s, None) =
     (if now - last_toggle s > DEBOUNCE_DELAY then
        (if \<not> level then
           (let s1 = s\<lparr>last_toggle := now\<rparr>;
                onoff_value = get_onoff_attribute_value s1
            in (s1, Some onoff_value))
         else (s, None))
      else (s, None))"
| "act_light (Loop_read now level) (s, Some onoff_value) = (s, Some onoff_value)"
| "act_light Loop_write (s, Some onoff_value) =
     (let onoff_value = set_b (\<not> val_b onoff_value) onoff_value
      in (set_onoff_attribute_value on_attribute_update_light onoff_value s, None))"
| "act_light Loop_write (s, None) = (s, None)"
| "act_light (Remote_write e c a v) (s, l) = (commit on_attribute_update_light e c a v s, l)"

fun interleave_light ::
  "action list \<Rightarrow> light \<times> esp_matter_attr_val_t option \<Rightarrow> light \<times> esp_matter_attr_val_t option" where
  "interleave_light [] x = x"
| "interleave_light (a # as) x = interleave_light as (act_light a x)"

section \<open>The callback\<close>

lemma on_attribute_update_light_miss:
  "\<not> (e = light_endpoint_id s \<and> c = CLUSTER_ID \<and> a = ATTRIBUTE_ID) \<Longrightarrow>
   on_attribute_update_light t e c a v s = (ESP_OK, s)"
  by (auto simp: on_attribute_update_light_def)

lemma on_attribute_update_plug_miss:
  "\<not> (e = plugin_unit_endpoint_id_1 p \<and> c = CLUSTER_ID \<and> a = ATTRIBUTE_ID) \<Longrightarrow>
   \<not> (e = plugin_unit_endpoint_id_2 p \<and> c = CLUSTER_ID \<and> a = ATTRIBUTE_ID) \<Longrightarrow>
   on_attribute_update_plug t e c a v p = (ESP_OK, p)"
  by (auto simp: on_attribute_update_plug_def)

lemma on_attribute_update_light_hit:
  "on_attribute_update_light PRE_UPDATE (light_endpoint_id s) CLUSTER_ID ATTRIBUTE_ID v s =
   (ESP_OK, s\<lparr>pin_writes := pin_writes s @ [(LED_PIN, val_b v)]\<rparr>)"
  by (simp add: on_attribute_update_light_def digitalWrite_def)

lemma on_attribute_update_plug_hit_1:
  "on_attribute_update_plug PRE_UPDATE (plugin_unit_endpoint_id_1 p) CLUSTER_ID ATTRIBUTE_ID v p =
   (ESP_OK, p\<lparr>pin_writes := pin_writes p @ [(LED_PIN_1, val_b v)]\<rparr>)"
  by (simp add: on_attribute_update_plug_def digitalWrite_def)

lemma on_attribute_update_plug_hit_2:
  "plugin_unit_endpoint_id_2 p \<noteq> plugin_unit_endpoint_id_1 p \<Longrightarrow>
   on_attribute_update_plug PRE_UPDATE (plugin_unit_endpoint_id_2 p) CLUSTER_ID ATTRIBUTE_ID v p =
   (ESP_OK, p\<lparr>pin_writes := pin_writes p @ [(LED_PIN_2, val_b v)]\<rparr>)"
  by (simp add: on_attribute_update_plug_def digitalWrite_def)

lemma on_attribute_update_light_other_phase:
  "t \<noteq> PRE_UPDATE \<Longrightarrow> on_attribute_update_light t e c a v s = (ESP_OK, s)"
  by (simp add: on_attribute_update_light_def)

lemma on_attribute_update_plug_other_phase:
  "t \<noteq> PRE_UPDATE \<Longrightarrow> on_attribute_update_plug t e c a v p = (ESP_OK, p)"
  by (simp add: on_attribute_update_plug_def)

lemma on_attribute_update_curtain_frame:
  "fst (on_attribute_update_curtain t e c a v u) = ESP_OK"
  "pin_writes (snd (on_attribute_update_curtain t e c a v u)) = pin_writes u"
  "last_toggle (snd (on_attribute_update_curtain t e c a v u)) = last_toggle u"
  "update_calls (snd (on_attribute_update_curtain t e c a v u)) = update_calls u"
  "store (snd (on_attribute_update_curtain t e c a v u)) = store u"
  "curtain_endpoint_id (snd (on_attribute_update_curtain t e c a v u)) = curtain_endpoint_id u"
  "attribute_ref (snd (on_attribute_update_curtain t e c a v u)) = attribute_ref u"
  by (simp_all add: on_attribute_update_curtain_def Serial_print_def Serial_print_num_def
      Serial_println_num_def Let_def)

lemma setup_light_fields:
  "light_endpoint_id (setup_light eid s) = eid"
  "last_toggle (setup_light eid s) = last_toggle s"
  "update_calls (setup_light eid s) = update_calls s"
  "pin_writes (setup_light eid s) = pin_writes s"
  "store (setup_light eid s) = (store s)((eid, CLUSTER_ID, ATTRIBUTE_ID) \<mapsto> esp_matter_bool False)"
  "attribute_ref (setup_light eid s) = Some (eid, CLUSTER_ID, ATTRIBUTE_ID)"
  by (simp_all add: setup_light_def Let_def attribute_get_def CLUSTER_ID_def ATTRIBUTE_ID_def)

lemma setup_plug_fields:
  "plugin_unit_endpoint_id_1 (setup_plug e1 e2 s) = e1"
  "plugin_unit_endpoint_id_2 (setup_plug e1 e2 s) = e2"
  "last_toggle (setup_plug e1 e2 s) = last_toggle s"
  "update_calls (setup_plug e1 e2 s) = update_calls s"
  "pin_writes (setup_plug e1 e2 s) = pin_writes s"
  "store (setup_plug e1 e2 s) =
     (store s)((e1, CLUSTER_ID, ATTRIBUTE_ID) \<mapsto> esp_matter_bool False,
               (e2, CLUSTER_ID, ATTRIBUTE_ID) \<mapsto> esp_matter_bool False)"
  "attribute_ref_1 (setup_plug e1 e2 s) = Some (e1, CLUSTER_ID, ATTRIBUTE_ID)"
  "attribute_ref_2 (setup_plug e1 e2 s) = Some (e2, CLUSTER_ID, ATTRIBUTE_ID)"
  by (simp_all add: setup_plug_def Let_def attribute_get_def CLUSTER_ID_def ATTRIBUTE_ID_def)

lemma setup_curtain_fields:
  "curtain_endpoint_id (setup_curtain eid s) = eid"
  "last_toggle (setup_curtain eid s) = last_toggle s"
  "update_calls (setup_curtain eid s) = update_calls s"
  "pin_writes (setup_curtain eid s) = pin_writes s"
  "store (setup_curtain eid s) =
     (store s)((eid, CURTAIN_CLUSTER_ID, CURTAIN_ATTRIBUTE_ID) \<mapsto> esp_matter_bitmap8 0)"
  by (simp_all add: setup_curtain_def Let_def CURTAIN_CLUSTER_ID_def CURTAIN_ATTRIBUTE_ID_def)

lemma boot_fields:
  "last_toggle boot_light = 0" "update_calls boot_light = []" "pin_writes boot_light = []"
  "store boot_light = Map.empty"
  "last_toggle boot_plug = 0" "update_calls boot_plug = []" "pin_writes boot_plug = []"
  "store boot_plug = Map.empty"
  "last_toggle boot_curtain = 0" "update_calls boot_curtain = []" "pin_writes boot_curtain = []"
  "store boot_curtain = Map.empty" "attribute_ref boot_curtain = None"
  by (simp_all add: boot_light_def boot_plug_def boot_curtain_def)

lemma ids_differ:
  "CLUSTER_ID \<noteq> CURTAIN_CLUSTER_ID"
  by (simp add: CLUSTER_ID_def CURTAIN_CLUSTER_ID_def OnOff_Id_def WindowCovering_Id_def)

text \<open>
  C5: an invocation of the callback whose triple matches no bound channel returns
  \<open>ESP_OK\<close> and leaves the device as it is, so it writes no pin: in the light sketch,
  and in the sketch with two endpoints. In the curtain sketch it returns \<open>ESP_OK\<close> and
  writes no pin either.
\<close>

theorem routing_miss_is_noop:
  "(\<not> (e = light_endpoint_id s \<and> c = CLUSTER_ID \<and> a = ATTRIBUTE_ID) \<longrightarrow>
      on_attribute_update_light t e c a v s = (ESP_OK, s)) \<and>
   (\<not> (e = plugin_unit_endpoint_id_1 p \<and> c = CLUSTER_ID \<and> a = ATTRIBUTE_ID) \<and>
    \<not> (e = plugin_unit_endpoint_id_2 p \<and> c = CLUSTER_ID \<and> a = ATTRIBUTE_ID) \<longrightarrow>
      on_attribute_update_plug t e c a v p = (ESP_OK, p)) \<and>
   (\<not> (e = curtain_endpoint_id u \<and> c = CURTAIN_CLUSTER_ID \<and> a = CURTAIN_ATTRIBUTE_ID) \<longrightarrow>
      fst (on_attribute_update_curtain t e c a v u) = ESP_OK \<and>
      pin_writes (snd (on_attribute_update_curtain t e c a v u)) = pin_writes u)"
proof (intro conjI impI)
  assume "\<not> (e = light_endpoint_id s \<and> c = CLUSTER_ID \<and> a = ATTRIBUTE_ID)"
  then show "on_attribute_update_light t e c a v s = (ESP_OK, s)"
    by (rule on_attribute_update_light_miss)
next
  assume "\<not> (e = plugin_unit_endpoint_id_1 p \<and> c = CLUSTER_ID \<and> a = ATTRIBUTE_ID) \<and>
          \<not> (e = plugin_unit_endpoint_id_2 p \<and> c = CLUSTER_ID \<and> a = ATTRIBUTE_ID)"
  then show "on_attribute_update_plug t e c a v p = (ESP_OK, p)"
    using on_attribute_update_plug_miss by blast
next
  show "fst (on_attribute_update_curtain t e c a v u) = ESP_OK"
    by (rule on_attribute_update_curtain_frame)
next
  show "pin_writes (snd (on_attribute_update_curtain t e c a v u)) = pin_writes u"
    by (rule on_attribute_update_curtain_frame)
qed

theorem routing_miss_is_noop_witness:
  "on_attribute_update_light PRE_UPDATE 2 CLUSTER_ID ATTRIBUTE_ID (esp_matter_bool True)
     (setup_light 1 boot_light) = (ESP_OK, setup_light 1 boot_light) \<and>
   on_attribute_update_plug PRE_UPDATE 3 CLUSTER_ID ATTRIBUTE_ID (esp_matter_bool True)
     (setup_plug 1 2 boot_plug) = (ESP_OK, setup_plug 1 2 boot_plug) \<and>
   pin_writes (snd (on_attribute_update_curtain PRE_UPDATE 1 CLUSTER_ID ATTRIBUTE_ID
     (esp_matter_bool True) (setup_curtain 1 boot_curtain))) = []"
proof -
  have l: "\<not> ((2 :: 16 word) = light_endpoint_id (setup_light 1 boot_light) \<and>
              CLUSTER_ID = CLUSTER_ID \<and> ATTRIBUTE_ID = ATTRIBUTE_ID)"
    by (simp add: setup_light_fields)
  have p: "\<not> ((3 :: 16 word) = plugin_unit_endpoint_id_1 (setup_plug 1 2 boot_plug) \<and>
              CLUSTER_ID = CLUSTER_ID \<and> ATTRIBUTE_ID = ATTRIBUTE_ID) \<and>
           \<not> ((3 :: 16 word) = plugin_unit_endpoint_id_2 (setup_plug 1 2 boot_plug) \<and>
              CLUSTER_ID = CLUSTER_ID \<and> ATTRIBUTE_ID = ATTRIBUTE_ID)"
    by (simp add: setup_plug_fields)
  have u: "\<not> ((1 :: 16 word) = curtain_endpoint_id (setup_curtain 1 boot_curtain) \<and>
              CLUSTER_ID = CURTAIN_CLUSTER_ID \<and> ATTRIBUTE_ID = CURTAIN_ATTRIBUTE_ID)"
    by (simp add: ids_differ)
  have w: "pin_writes (setup_curtain 1 boot_curtain) = []"
    by (simp add: setup_curtain_fields boot_fields)
  note r = routing_miss_is_noop [where t = PRE_UPDATE and c = CLUSTER_ID and a = ATTRIBUTE_ID
      and v = "esp_matter_bool True" and s = "setup_light 1 boot_light"
      and p = "setup_plug 1 2 boot_plug" and u = "setup_curtain 1 boot_curtain"]
  have "on_attribute_update_light PRE_UPDATE 2 CLUSTER_ID ATTRIBUTE_ID (esp_matter_bool True)
     (setup_light 1 boot_light) = (ESP_OK, setup_light 1 boot_light)"
    using r [where e = 2] l by blast
  moreover have "on_attribute_update_plug PRE_UPDATE 3 CLUSTER_ID ATTRIBUTE_ID (esp_matter_bool True)
     (setup_plug 1 2 boot_plug) = (ESP_OK, setup_plug 1 2 boot_plug)"
    using r [where e = 3] p by blast
  moreover have "pin_writes (snd (on_attribute_update_curtain PRE_UPDATE 1 CLUSTER_ID ATTRIBUTE_ID
     (esp_matter_bool True) (setup_curtain 1 boot_curtain))) = []"
    using r [where e = 1] u w by metis
  ultimately show ?thesis by blast
qed

lemma commit_curtain_frame:
  "pin_writes (commit on_attribute_update_curtain e c a v u) = pin_writes u"
  "last_toggle (commit on_attribute_update_curtain e c a v u) = last_toggle u"
  "update_calls (commit on_attribute_update_curtain e c a v u) = update_calls u"
  "curtain_endpoint_id (commit on_attribute_update_curtain e c a v u) = curtain_endpoint_id u"
  by (simp_all add: commit_def case_prod_beta on_attribute_update_curtain_frame)

text \<open>
  C4 (amended): in the light sketch and in the sketch with two endpoints, an invocation
  of the callback in the pre-update phase whose triple is that of a channel, with the
  value \<open>v\<close>, makes exactly one call of \<open>digitalWrite\<close>, with \<open>v\<close> read as a
  \<open>bool\<close>, on the output pin of the channel (the two endpoint ids being different for
  the second channel), and returns \<open>ESP_OK\<close>. In the curtain sketch an invocation with
  the triple of the curtain writes no pin.
\<close>

theorem matching_update_writes_pin:
  "on_attribute_update_light PRE_UPDATE (light_endpoint_id s) CLUSTER_ID ATTRIBUTE_ID v s =
     (ESP_OK, s\<lparr>pin_writes := pin_writes s @ [(LED_PIN, val_b v)]\<rparr>) \<and>
   on_attribute_update_plug PRE_UPDATE (plugin_unit_endpoint_id_1 p) CLUSTER_ID ATTRIBUTE_ID v p =
     (ESP_OK, p\<lparr>pin_writes := pin_writes p @ [(LED_PIN_1, val_b v)]\<rparr>) \<and>
   (plugin_unit_endpoint_id_2 p \<noteq> plugin_unit_endpoint_id_1 p \<longrightarrow>
    on_attribute_update_plug PRE_UPDATE (plugin_unit_endpoint_id_2 p) CLUSTER_ID ATTRIBUTE_ID v p =
     (ESP_OK, p\<lparr>pin_writes := pin_writes p @ [(LED_PIN_2, val_b v)]\<rparr>)) \<and>
   pin_writes (snd (on_attribute_update_curtain PRE_UPDATE (curtain_endpoint_id u)
     CURTAIN_CLUSTER_ID CURTAIN_ATTRIBUTE_ID v u)) = pin_writes u"
  using on_attribute_update_light_hit on_attribute_update_plug_hit_1
    on_attribute_update_plug_hit_2 on_attribute_update_curtain_frame(2)
  by blast

theorem matching_update_writes_pin_witness:
  "pin_writes (snd (on_attribute_update_light PRE_UPDATE 1 CLUSTER_ID ATTRIBUTE_ID
      (esp_matter_bool True) (setup_light 1 boot_light))) = [(D0, True)] \<and>
   pin_writes (snd (on_attribute_update_plug PRE_UPDATE 1 CLUSTER_ID ATTRIBUTE_ID
      (esp_matter_bool True) (setup_plug 1 2 boot_plug))) = [(D0, True)] \<and>
   pin_writes (snd (on_attribute_update_plug PRE_UPDATE 2 CLUSTER_ID ATTRIBUTE_ID
      (esp_matter_bool True) (setup_plug 1 2 boot_plug))) = [(D1, True)]"
proof -
  have d: "plugin_unit_endpoint_id_2 (setup_plug 1 2 boot_plug) \<noteq>
           plugin_unit_endpoint_id_1 (setup_plug 1 2 boot_plug)"
    by (simp add: setup_plug_fields)
  have b: "val_b (esp_matter_bool True)"
    by (simp add: val_b_def esp_matter_bool_def)
  from d b
    matching_update_writes_pin [where s = "setup_light 1 boot_light"
      and p = "setup_plug 1 2 boot_plug" and v = "esp_matter_bool True"]
  show ?thesis
    by (simp add: setup_light_fields setup_plug_fields boot_fields LED_PIN_def LED_PIN_1_def
        LED_PIN_2_def)
qed

text \<open>
  The claim as stated fails in the curtain sketch: the callback, invoked in the
  pre-update phase with the triple of the curtain, takes the curtain branch (it prints
  the new state) and writes no pin.
\<close>

theorem matching_update_writes_pin_counterexample:
  "store (setup_curtain 1 boot_curtain) (1, CURTAIN_CLUSTER_ID, CURTAIN_ATTRIBUTE_ID) \<noteq> None \<and>
   curtain_endpoint_id (setup_curtain 1 boot_curtain) = 1 \<and>
   serial (snd (on_attribute_update_curtain PRE_UPDATE 1 CURTAIN_CLUSTER_ID CURTAIN_ATTRIBUTE_ID
     (esp_matter_bitmap8 1) (setup_curtain 1 boot_curtain))) =
     [Print_text ''Update on endpoint: '', Print_num 1, Print_text '' cluster: '',
      Print_num 258, Print_text '' attribute: '', Println_num 10,
      Print_text ''New state: '', Println_num 1] \<and>
   pin_writes (snd (on_attribute_update_curtain PRE_UPDATE 1 CURTAIN_CLUSTER_ID CURTAIN_ATTRIBUTE_ID
     (esp_matter_bitmap8 1) (setup_curtain 1 boot_curtain))) = []"
  by (simp add: on_attribute_update_curtain_def setup_curtain_def boot_curtain_def
      Serial_print_def Serial_print_num_def Serial_println_num_def Let_def
      CURTAIN_CLUSTER_ID_def CURTAIN_ATTRIBUTE_ID_def WindowCovering_Id_def
      WindowCovering_Attributes_OperationalStatus_Id_def esp_matter_bitmap8_def val_b_def ESP_OK_def)

lemma get_curtain_frame:
  "get_curtain_attribute_value (u\<lparr>last_toggle := x\<rparr>) = get_curtain_attribute_value u"
  by (simp add: get_curtain_attribute_value_def attribute_get_val_def split: option.split)

lemma set_curtain_calls:
  "new_calls u (set_curtain_attribute_value on_attribute_update_curtain v u) =
     [((curtain_endpoint_id u, OnOff_Id, OnOff_Attributes_OnOff_Id), v)]"
  by (simp add: new_calls_def set_curtain_attribute_value_def attribute_update_def
      commit_curtain_frame CLUSTER_ID_def ATTRIBUTE_ID_def)

lemma loop_curtain_fire:
  "DEBOUNCE_DELAY < now - last_toggle u \<Longrightarrow>
   loop_curtain now False u =
     set_curtain_attribute_value on_attribute_update_curtain
       (set_u8 (if val_u8 (get_curtain_attribute_value u) = 0 then 1 else 0)
               (get_curtain_attribute_value u))
       (u\<lparr>last_toggle := now\<rparr>)"
  by (simp add: loop_curtain_def loop_curtain_with_def Let_def get_curtain_frame)

lemma loop_curtain_calls:
  assumes "DEBOUNCE_DELAY < now - last_toggle u"
  shows "new_calls u (loop_curtain now False u) =
     [((curtain_endpoint_id u, OnOff_Id, OnOff_Attributes_OnOff_Id),
       set_u8 (if val_u8 (get_curtain_attribute_value u) = 0 then 1 else 0)
              (get_curtain_attribute_value u))]"
proof -
  have "new_calls u (loop_curtain now False u) =
        new_calls (u\<lparr>last_toggle := now\<rparr>) (loop_curtain now False u)"
    by (simp add: new_calls_def)
  then show ?thesis
    unfolding loop_curtain_fire [OF assms] by (simp add: set_curtain_calls)
qed

lemma loop_curtain_store:
  assumes "DEBOUNCE_DELAY < now - last_toggle u"
    and "store u (curtain_endpoint_id u, OnOff_Id, OnOff_Attributes_OnOff_Id) = None"
  shows "store (loop_curtain now False u) = store u"
  using assms(2)
  unfolding loop_curtain_fire [OF assms(1)]
  by (simp add: set_curtain_attribute_value_def attribute_update_def commit_def
      CLUSTER_ID_def ATTRIBUTE_ID_def)

text \<open>
  C3: in the curtain sketch \<open>set_curtain_attribute_value\<close> calls \<open>attribute::update\<close>
  with \<open>CLUSTER_ID\<close> and \<open>ATTRIBUTE_ID\<close>, the on/off identifiers, and not with
  \<open>CURTAIN_CLUSTER_ID\<close> and \<open>CURTAIN_ATTRIBUTE_ID\<close>, the window covering identifiers.
  So a local toggle, a pass of \<open>loop\<close> that qualifies with the button pressed, makes
  exactly one call of \<open>attribute::update\<close>, on the triple of the endpoint with the
  on/off identifiers. That triple is not the triple of the curtain branch of the
  callback: invoked with the written triple, the callback prints the triple and does
  not reach the branch.
\<close>

theorem curtain_setter_writes_other_triple:
  "new_calls u (set_curtain_attribute_value on_attribute_update_curtain v u) =
     [((curtain_endpoint_id u, OnOff_Id, OnOff_Attributes_OnOff_Id), v)] \<and>
   (DEBOUNCE_DELAY < now - last_toggle u \<longrightarrow>
      new_calls u (loop_curtain now False u) =
        [((curtain_endpoint_id u, OnOff_Id, OnOff_Attributes_OnOff_Id),
          set_u8 (if val_u8 (get_curtain_attribute_value u) = 0 then 1 else 0)
                 (get_curtain_attribute_value u))]) \<and>
   CURTAIN_CLUSTER_ID = WindowCovering_Id \<and>
   CURTAIN_ATTRIBUTE_ID = WindowCovering_Attributes_OperationalStatus_Id \<and>
   (curtain_endpoint_id u, OnOff_Id, OnOff_Attributes_OnOff_Id) \<noteq>
     (curtain_endpoint_id u, CURTAIN_CLUSTER_ID, CURTAIN_ATTRIBUTE_ID) \<and>
   serial (snd (on_attribute_update_curtain PRE_UPDATE (curtain_endpoint_id u) OnOff_Id
      OnOff_Attributes_OnOff_Id v u)) =
     serial u @ [Print_text ''Update on endpoint: '', Print_num (unat (curtain_endpoint_id u)),
                 Print_text '' cluster: '', Print_num 6,
                 Print_text '' attribute: '', Println_num 0]"
proof (intro conjI impI)
  show "new_calls u (set_curtain_attribute_value on_attribute_update_curtain v u) =
     [((curtain_endpoint_id u, OnOff_Id, OnOff_Attributes_OnOff_Id), v)]"
    by (rule set_curtain_calls)
  show "CURTAIN_CLUSTER_ID = WindowCovering_Id"
    by (simp add: CURTAIN_CLUSTER_ID_def)
  show "CURTAIN_ATTRIBUTE_ID = WindowCovering_Attributes_OperationalStatus_Id"
    by (simp add: CURTAIN_ATTRIBUTE_ID_def)
  show "(curtain_endpoint_id u, OnOff_Id, OnOff_Attributes_OnOff_Id) \<noteq>
     (curtain_endpoint_id u, CURTAIN_CLUSTER_ID, CURTAIN_ATTRIBUTE_ID)"
    using ids_differ by (simp add: CLUSTER_ID_def)
  show "serial (snd (on_attribute_update_curtain PRE_UPDATE (curtain_endpoint_id u) OnOff_Id
      OnOff_Attributes_OnOff_Id v u)) =
     serial u @ [Print_text ''Update on endpoint: '', Print_num (unat (curtain_endpoint_id u)),
                 Print_text '' cluster: '', Print_num 6,
                 Print_text '' attribute: '', Println_num 0]"
    using ids_differ
    by (simp add: on_attribute_update_curtain_def Serial_print_def Serial_print_num_def
        Serial_println_num_def Let_def CLUSTER_ID_def OnOff_Id_def OnOff_Attributes_OnOff_Id_def)
next
  assume "DEBOUNCE_DELAY < now - last_toggle u"
  then show "new_calls u (loop_curtain now False u) =
        [((curtain_endpoint_id u, OnOff_Id, OnOff_Attributes_OnOff_Id),
          set_u8 (if val_u8 (get_curtain_attribute_value u) = 0 then 1 else 0)
                 (get_curtain_attribute_value u))]"
    by (rule loop_curtain_calls)
qed

text \<open>
  After \<open>setup\<close> the handle of the curtain sketch is \<open>NULL\<close>, since the endpoint has no
  on/off cluster: a press 501 milliseconds after boot reads nothing, inverts the zero
  byte of the invalid value, and calls \<open>attribute::update\<close> on the on/off triple of
  endpoint 1; the attribute of the curtain stays as it was.
\<close>

lemma setup_curtain_unbound:
  "attribute_ref (setup_curtain 1 boot_curtain) = None"
  "store (setup_curtain 1 boot_curtain) (1, OnOff_Id, OnOff_Attributes_OnOff_Id) = None"
  "get_curtain_attribute_value (setup_curtain 1 boot_curtain) = esp_matter_invalid"
  by (simp_all add: setup_curtain_def boot_curtain_def Let_def attribute_get_def
      get_curtain_attribute_value_def attribute_get_val_def CLUSTER_ID_def ATTRIBUTE_ID_def
      OnOff_Id_def WindowCovering_Id_def)

theorem curtain_setter_writes_other_triple_witness:
  "new_calls (setup_curtain 1 boot_curtain) (loop_curtain 501 False (setup_curtain 1 boot_curtain)) =
     [((1, OnOff_Id, OnOff_Attributes_OnOff_Id),
       \<lparr>val_type = ESP_MATTER_VAL_TYPE_INVALID, val = 1\<rparr>)] \<and>
   store (loop_curtain 501 False (setup_curtain 1 boot_curtain))
     (1, CURTAIN_CLUSTER_ID, CURTAIN_ATTRIBUTE_ID) = Some (esp_matter_bitmap8 0)"
proof -
  have w: "DEBOUNCE_DELAY < 501 - last_toggle (setup_curtain 1 boot_curtain)"
    by (simp add: setup_curtain_fields boot_fields DEBOUNCE_DELAY_def)
  have i: "curtain_endpoint_id (setup_curtain 1 boot_curtain) = 1"
    by (simp add: setup_curtain_fields)
  have v: "set_u8 (if val_u8 (get_curtain_attribute_value (setup_curtain 1 boot_curtain)) = 0
                   then 1 else 0)
                  (get_curtain_attribute_value (setup_curtain 1 boot_curtain)) =
           \<lparr>val_type = ESP_MATTER_VAL_TYPE_INVALID, val = 1\<rparr>"
    by (simp add: setup_curtain_unbound set_u8_def val_u8_def esp_matter_invalid_def)
  have "store (loop_curtain 501 False (setup_curtain 1 boot_curtain)) =
        store (setup_curtain 1 boot_curtain)"
    using w by (rule loop_curtain_store) (simp add: i setup_curtain_unbound)
  then have st: "store (loop_curtain 501 False (setup_curtain 1 boot_curtain))
     (1, CURTAIN_CLUSTER_ID, CURTAIN_ATTRIBUTE_ID) = Some (esp_matter_bitmap8 0)"
    by (simp add: setup_curtain_fields)
  show ?thesis
    using curtain_setter_writes_other_triple [where u = "setup_curtain 1 boot_curtain"
        and now = 501] w st
    unfolding i v by blast
qed

section \<open>Commits and toggles\<close>

lemma commit_light:
  "store (commit on_attribute_update_light e c a v s) =
     (if store s (e, c, a) = None then store s else (store s)((e, c, a) \<mapsto> v))"
  "update_calls (commit on_attribute_update_light e c a v s) = update_calls s"
  "last_toggle (commit on_attribute_update_light e c a v s) = last_toggle s"
  "light_endpoint_id (commit on_attribute_update_light e c a v s) = light_endpoint_id s"
  "attribute_ref (commit on_attribute_update_light e c a v s) = attribute_ref s"
  "pin_writes (commit on_attribute_update_light e c a v s) =
     pin_writes s @
     (if store s (e, c, a) \<noteq> None \<and> e = light_endpoint_id s \<and> c = CLUSTER_ID \<and> a = ATTRIBUTE_ID
      then [(LED_PIN, val_b v)] else [])"
  by (simp_all add: commit_def on_attribute_update_light_def digitalWrite_def ESP_OK_def)

lemma commit_plug:
  "store (commit on_attribute_update_plug e c a v p) =
     (if store p (e, c, a) = None then store p else (store p)((e, c, a) \<mapsto> v))"
  "update_calls (commit on_attribute_update_plug e c a v p) = update_calls p"
  "last_toggle (commit on_attribute_update_plug e c a v p) = last_toggle p"
  "plugin_unit_endpoint_id_1 (commit on_attribute_update_plug e c a v p) = plugin_unit_endpoint_id_1 p"
  "plugin_unit_endpoint_id_2 (commit on_attribute_update_plug e c a v p) = plugin_unit_endpoint_id_2 p"
  "attribute_ref_1 (commit on_attribute_update_plug e c a v p) = attribute_ref_1 p"
  "attribute_ref_2 (commit on_attribute_update_plug e c a v p) = attribute_ref_2 p"
  by (simp_all add: commit_def on_attribute_update_plug_def digitalWrite_def ESP_OK_def Let_def)

lemma commit_no_callback:
  "commit no_callback e c a v s =
     (if store s (e, c, a) = None then s else s\<lparr>store := (store s)((e, c, a) \<mapsto> v)\<rparr>)"
  by (simp add: commit_def no_callback_def ESP_OK_def)

lemma commit_pin_writes:
  assumes "\<And>t e c a v x. pin_writes (snd (cb t e c a v x)) = pin_writes x"
  shows "pin_writes (commit cb e c a v s) = pin_writes s"
proof -
  have "pin_writes (snd (cb PRE_UPDATE e c a v s)) = pin_writes s"
    by (rule assms)
  then show ?thesis
    by (simp add: commit_def case_prod_beta assms)
qed

lemma toggled_differs: "val_b (set_b (\<not> val_b v) v) = (\<not> val_b v)"
  by (simp add: val_b_def set_b_def)

lemma get_onoff_frame:
  "get_onoff_attribute_value (s\<lparr>last_toggle := x\<rparr>) = get_onoff_attribute_value s"
  by (simp add: get_onoff_attribute_value_def attribute_get_val_def split: option.split)

lemma loop_light_with_fire:
  "DEBOUNCE_DELAY < now - last_toggle s \<Longrightarrow>
   loop_light_with cb now False s =
     commit cb (light_endpoint_id s) CLUSTER_ID ATTRIBUTE_ID
       (set_b (\<not> val_b (get_onoff_attribute_value s)) (get_onoff_attribute_value s))
       (s\<lparr>last_toggle := now,
          update_calls := update_calls s @
            [((light_endpoint_id s, CLUSTER_ID, ATTRIBUTE_ID),
              set_b (\<not> val_b (get_onoff_attribute_value s)) (get_onoff_attribute_value s))]\<rparr>)"
  by (simp add: loop_light_with_def Let_def set_onoff_attribute_value_def attribute_update_def
      get_onoff_frame)

lemma loop_light_with_idle:
  "\<not> DEBOUNCE_DELAY < now - last_toggle s \<or> level \<Longrightarrow> loop_light_with cb now level s = s"
  by (auto simp: loop_light_with_def)

lemma get_onoff_bound:
  "bound_light s \<Longrightarrow>
   get_onoff_attribute_value s = the (store s (light_endpoint_id s, CLUSTER_ID, ATTRIBUTE_ID))"
  by (auto simp: bound_light_def get_onoff_attribute_value_def attribute_get_val_def)

lemma loop_light_toggles:
  assumes "bound_light s" "DEBOUNCE_DELAY < now - last_toggle s"
  shows "get_onoff_attribute_value (loop_light now False s) =
         set_b (\<not> val_b (get_onoff_attribute_value s)) (get_onoff_attribute_value s)"
    and "bound_light (loop_light now False s)"
  using assms
  by (auto simp: loop_light_def loop_light_with_fire commit_light bound_light_def
      get_onoff_attribute_value_def attribute_get_val_def)

lemma get_plug_frame:
  "get_onoff_attribute_value_plug (p\<lparr>last_toggle := x\<rparr>) r = get_onoff_attribute_value_plug p r"
  by (simp add: get_onoff_attribute_value_plug_def attribute_get_val_def split: option.split)

lemma get_plug_bound:
  "store p path = Some w \<Longrightarrow> get_onoff_attribute_value_plug p (Some path) = w"
  by (simp add: get_onoff_attribute_value_plug_def attribute_get_val_def)

lemma set_plug:
  "store (set_onoff_attribute_value_plug on_attribute_update_plug v e p) =
     (if store p (e, CLUSTER_ID, ATTRIBUTE_ID) = None then store p
      else (store p)((e, CLUSTER_ID, ATTRIBUTE_ID) \<mapsto> v))"
  "update_calls (set_onoff_attribute_value_plug on_attribute_update_plug v e p) =
     update_calls p @ [((e, CLUSTER_ID, ATTRIBUTE_ID), v)]"
  "last_toggle (set_onoff_attribute_value_plug on_attribute_update_plug v e p) = last_toggle p"
  "plugin_unit_endpoint_id_1 (set_onoff_attribute_value_plug on_attribute_update_plug v e p) =
     plugin_unit_endpoint_id_1 p"
  "plugin_unit_endpoint_id_2 (set_onoff_attribute_value_plug on_attribute_update_plug v e p) =
     plugin_unit_endpoint_id_2 p"
  "attribute_ref_1 (set_onoff_attribute_value_plug on_attribute_update_plug v e p) = attribute_ref_1 p"
  "attribute_ref_2 (set_onoff_attribute_value_plug on_attribute_update_plug v e p) = attribute_ref_2 p"
  by (simp_all add: set_onoff_attribute_value_plug_def attribute_update_def commit_plug)

lemma loop_plug_idle:
  "\<not> DEBOUNCE_DELAY < now - last_toggle p \<Longrightarrow> loop_plug_with cb now level_1 level_2 p = p"
  by (simp add: loop_plug_with_def)

lemma loop_plug_released:
  "loop_plug_with cb now True True p = p"
  by (simp add: loop_plug_with_def)

text \<open>One pressed button in a pass that qualifies.\<close>

lemma loop_plug_press_1:
  "DEBOUNCE_DELAY < now - last_toggle p \<Longrightarrow>
   loop_plug now False True p =
     set_onoff_attribute_value_plug on_attribute_update_plug
       (set_b (\<not> val_b (get_onoff_attribute_value_plug p (attribute_ref_1 p)))
              (get_onoff_attribute_value_plug p (attribute_ref_1 p)))
       (plugin_unit_endpoint_id_1 p) (p\<lparr>last_toggle := now\<rparr>)"
  by (simp add: loop_plug_def loop_plug_with_def Let_def get_plug_frame)

lemma loop_plug_press_2:
  "DEBOUNCE_DELAY < now - last_toggle p \<Longrightarrow>
   loop_plug now True False p =
     set_onoff_attribute_value_plug on_attribute_update_plug
       (set_b (\<not> val_b (get_onoff_attribute_value_plug p (attribute_ref_2 p)))
              (get_onoff_attribute_value_plug p (attribute_ref_2 p)))
       (plugin_unit_endpoint_id_2 p) (p\<lparr>last_toggle := now\<rparr>)"
  by (simp add: loop_plug_def loop_plug_with_def Let_def get_plug_frame)

text \<open>Both buttons pressed: the second toggle follows the first in the same pass.\<close>

lemma loop_plug_press_both:
  "DEBOUNCE_DELAY < now - last_toggle p \<Longrightarrow>
   loop_plug now False False p =
     (let p1 = loop_plug now False True p in
      set_onoff_attribute_value_plug on_attribute_update_plug
       (set_b (\<not> val_b (get_onoff_attribute_value_plug p1 (attribute_ref_2 p1)))
              (get_onoff_attribute_value_plug p1 (attribute_ref_2 p1)))
       (plugin_unit_endpoint_id_2 p1) (p1\<lparr>last_toggle := now\<rparr>))"
  by (simp add: loop_plug_def loop_plug_with_def Let_def get_plug_frame)

lemma loop_plug_fields:
  "plugin_unit_endpoint_id_1 (loop_plug now l1 l2 p) = plugin_unit_endpoint_id_1 p"
  "plugin_unit_endpoint_id_2 (loop_plug now l1 l2 p) = plugin_unit_endpoint_id_2 p"
  "attribute_ref_1 (loop_plug now l1 l2 p) = attribute_ref_1 p"
  "attribute_ref_2 (loop_plug now l1 l2 p) = attribute_ref_2 p"
  by (simp_all add: loop_plug_def loop_plug_with_def Let_def set_plug)

lemma loop_plug_last_toggle:
  "last_toggle (loop_plug now l1 l2 p) =
     (if DEBOUNCE_DELAY < now - last_toggle p \<and> (\<not> l1 \<or> \<not> l2) then now else last_toggle p)"
  by (simp add: loop_plug_def loop_plug_with_def Let_def set_plug)

lemma loop_plug_calls:
  "map fst (new_calls p (loop_plug now l1 l2 p)) =
     (if DEBOUNCE_DELAY < now - last_toggle p then
        (if \<not> l1 then [(plugin_unit_endpoint_id_1 p, CLUSTER_ID, ATTRIBUTE_ID)] else []) @
        (if \<not> l2 then [(plugin_unit_endpoint_id_2 p, CLUSTER_ID, ATTRIBUTE_ID)] else [])
      else [])"
  by (simp add: new_calls_def loop_plug_def loop_plug_with_def Let_def set_plug)

lemma loop_plug_toggles_1:
  assumes "bound_plug_1 p" "DEBOUNCE_DELAY < now - last_toggle p"
    and "plugin_unit_endpoint_id_1 p \<noteq> plugin_unit_endpoint_id_2 p"
  shows "val_b (get_onoff_attribute_value_plug (loop_plug now False l2 p)
                 (attribute_ref_1 (loop_plug now False l2 p))) =
         (\<not> val_b (get_onoff_attribute_value_plug p (attribute_ref_1 p)))"
proof -
  obtain w where w: "store p (plugin_unit_endpoint_id_1 p, CLUSTER_ID, ATTRIBUTE_ID) = Some w"
    and r: "attribute_ref_1 p = Some (plugin_unit_endpoint_id_1 p, CLUSTER_ID, ATTRIBUTE_ID)"
    using assms(1) by (auto simp: bound_plug_1_def)
  have g: "get_onoff_attribute_value_plug p (attribute_ref_1 p) = w"
    using w r by (simp add: get_plug_bound)
  have s1: "store (loop_plug now False True p) (plugin_unit_endpoint_id_1 p, CLUSTER_ID, ATTRIBUTE_ID) =
            Some (set_b (\<not> val_b w) w)"
    using w g assms(2) by (simp add: loop_plug_press_1 set_plug)
  have s: "store (loop_plug now False l2 p) (plugin_unit_endpoint_id_1 p, CLUSTER_ID, ATTRIBUTE_ID) =
            Some (set_b (\<not> val_b w) w)"
  proof (cases l2)
    case True
    then show ?thesis using s1 by simp
  next
    case False
    then show ?thesis
      using s1 assms(2,3) by (simp add: loop_plug_press_both Let_def set_plug loop_plug_fields)
  qed
  show ?thesis
    using s r g by (simp add: loop_plug_fields get_plug_bound toggled_differs)
qed

lemma loop_plug_toggles_2:
  assumes "bound_plug_2 p" "DEBOUNCE_DELAY < now - last_toggle p"
    and "plugin_unit_endpoint_id_1 p \<noteq> plugin_unit_endpoint_id_2 p"
  shows "val_b (get_onoff_attribute_value_plug (loop_plug now l1 False p)
                 (attribute_ref_2 (loop_plug now l1 False p))) =
         (\<not> val_b (get_onoff_attribute_value_plug p (attribute_ref_2 p)))"
proof -
  obtain w where w: "store p (plugin_unit_endpoint_id_2 p, CLUSTER_ID, ATTRIBUTE_ID) = Some w"
    and r: "attribute_ref_2 p = Some (plugin_unit_endpoint_id_2 p, CLUSTER_ID, ATTRIBUTE_ID)"
    using assms(1) by (auto simp: bound_plug_2_def)
  have g: "get_onoff_attribute_value_plug p (attribute_ref_2 p) = w"
    using w r by (simp add: get_plug_bound)
  have s: "store (loop_plug now l1 False p) (plugin_unit_endpoint_id_2 p, CLUSTER_ID, ATTRIBUTE_ID) =
            Some (set_b (\<not> val_b w) w)"
  proof (cases l1)
    case True
    then show ?thesis using w g assms(2) by (simp add: loop_plug_press_2 set_plug)
  next
    case False
    let ?p1 = "loop_plug now False True p"
    have w1: "store ?p1 (plugin_unit_endpoint_id_2 p, CLUSTER_ID, ATTRIBUTE_ID) = Some w"
      using w assms(2,3) by (simp add: loop_plug_press_1 set_plug)
    then have "get_onoff_attribute_value_plug ?p1 (attribute_ref_2 ?p1) = w"
      using r by (simp add: loop_plug_fields get_plug_bound)
    then show ?thesis
      using False w1 assms(2) by (simp add: loop_plug_press_both Let_def set_plug loop_plug_fields)
  qed
  show ?thesis
    using s r g by (simp add: loop_plug_fields get_plug_bound toggled_differs)
qed

lemma setup_light_bound: "bound_light (setup_light eid s)"
  by (simp add: bound_light_def setup_light_fields)

lemma setup_plug_bound: "bound_plug_1 (setup_plug e1 e2 s)" "bound_plug_2 (setup_plug e1 e2 s)"
  by (simp_all add: bound_plug_1_def bound_plug_2_def setup_plug_fields)

lemma window_501: "DEBOUNCE_DELAY < 501 - 0"
  by (simp add: DEBOUNCE_DELAY_def)

lemma within_window:
  assumes "t \<le> t'" "t' \<le> t + 500"
  shows "\<not> DEBOUNCE_DELAY < millis t' - millis t"
proof -
  have "millis t' - millis t = (of_nat (t' - t) :: 32 word)"
    using assms(1) by (simp add: millis_def)
  moreover have "unat (of_nat (t' - t) :: 32 word) = t' - t"
    using assms(2) by (simp add: unat_of_nat)
  ultimately show ?thesis
    using assms(2) by (simp add: DEBOUNCE_DELAY_def word_less_nat_alt)
qed

text \<open>
  C1: on a bound channel, and with no remote write in between, a toggle by \<open>loop\<close> (a
  pass that qualifies, with the button of the channel pressed) followed by a read
  gives the negation of what a read gave before the toggle: in the light sketch, and
  for each of the two channels of the sketch with two endpoints (whose endpoint ids
  are different).
\<close>

theorem toggle_then_read_negates:
  "(bound_light s \<and> DEBOUNCE_DELAY < now - last_toggle s \<longrightarrow>
      val_b (get_onoff_attribute_value (loop_light now False s)) =
      (\<not> val_b (get_onoff_attribute_value s))) \<and>
   (bound_plug_1 p \<and> DEBOUNCE_DELAY < now - last_toggle p \<and>
    plugin_unit_endpoint_id_1 p \<noteq> plugin_unit_endpoint_id_2 p \<longrightarrow>
      val_b (get_onoff_attribute_value_plug (loop_plug now False other p)
               (attribute_ref_1 (loop_plug now False other p))) =
      (\<not> val_b (get_onoff_attribute_value_plug p (attribute_ref_1 p)))) \<and>
   (bound_plug_2 p \<and> DEBOUNCE_DELAY < now - last_toggle p \<and>
    plugin_unit_endpoint_id_1 p \<noteq> plugin_unit_endpoint_id_2 p \<longrightarrow>
      val_b (get_onoff_attribute_value_plug (loop_plug now other False p)
               (attribute_ref_2 (loop_plug now other False p))) =
      (\<not> val_b (get_onoff_attribute_value_plug p (attribute_ref_2 p))))"
proof (intro conjI impI)
  assume "bound_light s \<and> DEBOUNCE_DELAY < now - last_toggle s"
  then show "val_b (get_onoff_attribute_value (loop_light now False s)) =
      (\<not> val_b (get_onoff_attribute_value s))"
    by (simp add: loop_light_toggles(1) toggled_differs)
next
  assume "bound_plug_1 p \<and> DEBOUNCE_DELAY < now - last_toggle p \<and>
    plugin_unit_endpoint_id_1 p \<noteq> plugin_unit_endpoint_id_2 p"
  then show "val_b (get_onoff_attribute_value_plug (loop_plug now False other p)
               (attribute_ref_1 (loop_plug now False other p))) =
      (\<not> val_b (get_onoff_attribute_value_plug p (attribute_ref_1 p)))"
    using loop_plug_toggles_1 by blast
next
  assume "bound_plug_2 p \<and> DEBOUNCE_DELAY < now - last_toggle p \<and>
    plugin_unit_endpoint_id_1 p \<noteq> plugin_unit_endpoint_id_2 p"
  then show "val_b (get_onoff_attribute_value_plug (loop_plug now other False p)
               (attribute_ref_2 (loop_plug now other False p))) =
      (\<not> val_b (get_onoff_attribute_value_plug p (attribute_ref_2 p)))"
    using loop_plug_toggles_2 by blast
qed

theorem toggle_then_read_negates_witness:
  "val_b (get_onoff_attribute_value (loop_light 501 False (setup_light 1 boot_light))) \<and>
   val_b (get_onoff_attribute_value_plug (loop_plug 501 False True (setup_plug 1 2 boot_plug))
            (attribute_ref_1 (loop_plug 501 False True (setup_plug 1 2 boot_plug)))) \<and>
   val_b (get_onoff_attribute_value_plug (loop_plug 501 True False (setup_plug 1 2 boot_plug))
            (attribute_ref_2 (loop_plug 501 True False (setup_plug 1 2 boot_plug))))"
proof -
  have w: "DEBOUNCE_DELAY < 501 - last_toggle (setup_light 1 boot_light)"
    "DEBOUNCE_DELAY < 501 - last_toggle (setup_plug 1 2 boot_plug)"
    using window_501 by (simp_all add: setup_light_fields setup_plug_fields boot_fields)
  have d: "plugin_unit_endpoint_id_1 (setup_plug 1 2 boot_plug) \<noteq>
           plugin_unit_endpoint_id_2 (setup_plug 1 2 boot_plug)"
    by (simp add: setup_plug_fields)
  have off: "\<not> val_b (get_onoff_attribute_value (setup_light 1 boot_light))"
    "\<not> val_b (get_onoff_attribute_value_plug (setup_plug 1 2 boot_plug)
              (attribute_ref_1 (setup_plug 1 2 boot_plug)))"
    "\<not> val_b (get_onoff_attribute_value_plug (setup_plug 1 2 boot_plug)
              (attribute_ref_2 (setup_plug 1 2 boot_plug)))"
    by (simp_all add: get_onoff_attribute_value_def get_onoff_attribute_value_plug_def
        attribute_get_val_def setup_light_fields setup_plug_fields val_b_def esp_matter_bool_def)
  show ?thesis
    using toggle_then_read_negates [where now = 501 and s = "setup_light 1 boot_light"
        and p = "setup_plug 1 2 boot_plug" and other = True] w d off
      setup_light_bound [of 1 boot_light] setup_plug_bound [of 1 2 boot_plug]
    by blast
qed

text \<open>
  C2: the sketch with two endpoints has one \<open>last_toggle\<close> for both buttons. In a pass
  that qualifies with both buttons pressed, both attributes are toggled. After a pass
  at time \<open>t\<close> in which button 2 (\<open>TOGGLE_BUTTON_PIN_2\<close>, D8) triggered, a pass at a
  time \<open>t'\<close> no more than \<open>DEBOUNCE_DELAY\<close> milliseconds later with button 1
  (\<open>TOGGLE_BUTTON_PIN_1\<close>, D9) pressed changes nothing: no channel is toggled.
\<close>

theorem shared_debounce_timer:
  "(bound_plug_1 p \<and> bound_plug_2 p \<and> DEBOUNCE_DELAY < now - last_toggle p \<and>
    plugin_unit_endpoint_id_1 p \<noteq> plugin_unit_endpoint_id_2 p \<longrightarrow>
      val_b (get_onoff_attribute_value_plug (loop_plug now False False p)
               (attribute_ref_1 (loop_plug now False False p))) =
      (\<not> val_b (get_onoff_attribute_value_plug p (attribute_ref_1 p))) \<and>
      val_b (get_onoff_attribute_value_plug (loop_plug now False False p)
               (attribute_ref_2 (loop_plug now False False p))) =
      (\<not> val_b (get_onoff_attribute_value_plug p (attribute_ref_2 p))) \<and>
      map fst (new_calls p (loop_plug now False False p)) =
        [(plugin_unit_endpoint_id_1 p, CLUSTER_ID, ATTRIBUTE_ID),
         (plugin_unit_endpoint_id_2 p, CLUSTER_ID, ATTRIBUTE_ID)]) \<and>
   (DEBOUNCE_DELAY < millis t - last_toggle p \<and> t \<le> t' \<and> t' \<le> t + unat DEBOUNCE_DELAY \<longrightarrow>
      map fst (new_calls p (loop_plug (millis t) True False p)) =
        [(plugin_unit_endpoint_id_2 p, CLUSTER_ID, ATTRIBUTE_ID)] \<and>
      last_toggle (loop_plug (millis t) True False p) = millis t \<and>
      loop_plug (millis t') False other (loop_plug (millis t) True False p) =
        loop_plug (millis t) True False p)"
proof (intro conjI impI)
  assume a: "bound_plug_1 p \<and> bound_plug_2 p \<and> DEBOUNCE_DELAY < now - last_toggle p \<and>
    plugin_unit_endpoint_id_1 p \<noteq> plugin_unit_endpoint_id_2 p"
  show "val_b (get_onoff_attribute_value_plug (loop_plug now False False p)
               (attribute_ref_1 (loop_plug now False False p))) =
      (\<not> val_b (get_onoff_attribute_value_plug p (attribute_ref_1 p)))"
    using a loop_plug_toggles_1 by blast
  show "val_b (get_onoff_attribute_value_plug (loop_plug now False False p)
               (attribute_ref_2 (loop_plug now False False p))) =
      (\<not> val_b (get_onoff_attribute_value_plug p (attribute_ref_2 p)))"
    using a loop_plug_toggles_2 by blast
  show "map fst (new_calls p (loop_plug now False False p)) =
        [(plugin_unit_endpoint_id_1 p, CLUSTER_ID, ATTRIBUTE_ID),
         (plugin_unit_endpoint_id_2 p, CLUSTER_ID, ATTRIBUTE_ID)]"
    using a by (simp add: loop_plug_calls)
next
  assume b: "DEBOUNCE_DELAY < millis t - last_toggle p \<and> t \<le> t' \<and> t' \<le> t + unat DEBOUNCE_DELAY"
  show "map fst (new_calls p (loop_plug (millis t) True False p)) =
        [(plugin_unit_endpoint_id_2 p, CLUSTER_ID, ATTRIBUTE_ID)]"
    using b by (simp add: loop_plug_calls)
  show lt: "last_toggle (loop_plug (millis t) True False p) = millis t"
    using b by (simp add: loop_plug_last_toggle)
  have "t \<le> t'" "t' \<le> t + 500"
    using b by (simp_all add: DEBOUNCE_DELAY_def)
  then have "\<not> DEBOUNCE_DELAY < millis t' - millis t"
    by (rule within_window)
  then show "loop_plug (millis t') False other (loop_plug (millis t) True False p) =
        loop_plug (millis t) True False p"
    unfolding loop_plug_def using lt [unfolded loop_plug_def] by (simp add: loop_plug_idle)
qed

theorem shared_debounce_timer_witness:
  "map fst (new_calls (setup_plug 1 2 boot_plug)
      (loop_plug 501 False False (setup_plug 1 2 boot_plug))) =
     [(1, CLUSTER_ID, ATTRIBUTE_ID), (2, CLUSTER_ID, ATTRIBUTE_ID)] \<and>
   map fst (new_calls (setup_plug 1 2 boot_plug)
      (loop_plug (millis 501) True False (setup_plug 1 2 boot_plug))) =
     [(2, CLUSTER_ID, ATTRIBUTE_ID)] \<and>
   loop_plug (millis 700) False True (loop_plug (millis 501) True False (setup_plug 1 2 boot_plug)) =
     loop_plug (millis 501) True False (setup_plug 1 2 boot_plug)"
proof -
  have w: "DEBOUNCE_DELAY < 501 - last_toggle (setup_plug 1 2 boot_plug)"
    "DEBOUNCE_DELAY < millis 501 - last_toggle (setup_plug 1 2 boot_plug)"
    using window_501 by (simp_all add: setup_plug_fields boot_fields millis_def)
  have d: "plugin_unit_endpoint_id_1 (setup_plug 1 2 boot_plug) \<noteq>
           plugin_unit_endpoint_id_2 (setup_plug 1 2 boot_plug)"
    by (simp add: setup_plug_fields)
  have i: "plugin_unit_endpoint_id_1 (setup_plug 1 2 boot_plug) = 1"
    "plugin_unit_endpoint_id_2 (setup_plug 1 2 boot_plug) = 2"
    by (simp_all add: setup_plug_fields)
  have t: "(501 :: nat) \<le> 700" "(700 :: nat) \<le> 501 + unat DEBOUNCE_DELAY"
    by (simp_all add: DEBOUNCE_DELAY_def)
  show ?thesis
    using shared_debounce_timer [where p = "setup_plug 1 2 boot_plug" and now = 501
        and t = 501 and t' = 700 and other = True]
      w d t setup_plug_bound [of 1 2 boot_plug]
    unfolding i by blast
qed

section \<open>What the loop changes\<close>

lemma loop_light_with_pin_writes:
  assumes "\<And>t e c a v x. pin_writes (snd (cb t e c a v x)) = pin_writes x"
  shows "pin_writes (loop_light_with cb now level s) = pin_writes s"
proof (cases "DEBOUNCE_DELAY < now - last_toggle s \<and> \<not> level")
  case True
  then show ?thesis
    using commit_pin_writes [of cb, OF assms] by (simp add: loop_light_with_fire)
next
  case False
  then have "loop_light_with cb now level s = s"
    using loop_light_with_idle by blast
  then show ?thesis by simp
qed

lemma loop_plug_with_pin_writes:
  assumes "\<And>t e c a v x. pin_writes (snd (cb t e c a v x)) = pin_writes x"
  shows "pin_writes (loop_plug_with cb now l1 l2 p) = pin_writes p"
  using commit_pin_writes [of cb, OF assms]
  by (simp add: loop_plug_with_def Let_def set_onoff_attribute_value_plug_def attribute_update_def)

lemma loop_light_with_no_callback:
  "loop_light_with no_callback now level s =
     s\<lparr>store := store (loop_light_with no_callback now level s),
       update_calls := update_calls (loop_light_with no_callback now level s),
       last_toggle := last_toggle (loop_light_with no_callback now level s)\<rparr>"
proof (cases "DEBOUNCE_DELAY < now - last_toggle s \<and> \<not> level")
  case True
  then show ?thesis
    by (simp add: loop_light_with_fire commit_no_callback)
next
  case False
  then have "loop_light_with no_callback now level s = s"
    using loop_light_with_idle by blast
  then show ?thesis by simp
qed

lemma loop_plug_with_no_callback:
  "loop_plug_with no_callback now l1 l2 p =
     p\<lparr>store := store (loop_plug_with no_callback now l1 l2 p),
       update_calls := update_calls (loop_plug_with no_callback now l1 l2 p),
       last_toggle := last_toggle (loop_plug_with no_callback now l1 l2 p)\<rparr>"
  by (simp add: loop_plug_with_def Let_def set_onoff_attribute_value_plug_def attribute_update_def
      commit_no_callback)

lemma loop_light_echo:
  assumes "bound_light s" "DEBOUNCE_DELAY < now - last_toggle s"
  shows "pin_writes (loop_light now False s) =
         pin_writes (snd (on_attribute_update_light PRE_UPDATE (light_endpoint_id s) CLUSTER_ID
           ATTRIBUTE_ID
           (set_b (\<not> val_b (get_onoff_attribute_value s)) (get_onoff_attribute_value s)) s))"
  using assms
  by (simp add: loop_light_def loop_light_with_fire commit_light on_attribute_update_light_hit
      bound_light_def)

text \<open>
  C9: \<open>loop\<close> itself writes no pin. Whatever callback the framework has registered,
  if the callback writes no pin then a pass of \<open>loop\<close> writes none, so every call of
  \<open>digitalWrite\<close> in a pass is made inside the callback; and under a framework that
  only stores what is committed, a pass changes nothing but the attribute storage,
  \<open>last_toggle\<close>, and the log of its own calls of \<open>attribute::update\<close>. This holds
  in the light sketch and in the sketch with two endpoints. With \<open>on_attribute_update\<close>
  registered, the pin writes after a toggle of a bound light are those of the callback
  invoked with the committed value.
\<close>

theorem loop_writes_no_pin:
  "((\<forall>t e c a v x. pin_writes (snd (cb t e c a v x)) = pin_writes x) \<longrightarrow>
      pin_writes (loop_light_with cb now level s) = pin_writes s) \<and>
   loop_light_with no_callback now level s =
     s\<lparr>store := store (loop_light_with no_callback now level s),
       update_calls := update_calls (loop_light_with no_callback now level s),
       last_toggle := last_toggle (loop_light_with no_callback now level s)\<rparr> \<and>
   ((\<forall>t e c a v x. pin_writes (snd (cbp t e c a v x)) = pin_writes x) \<longrightarrow>
      pin_writes (loop_plug_with cbp now level other p) = pin_writes p) \<and>
   loop_plug_with no_callback now level other p =
     p\<lparr>store := store (loop_plug_with no_callback now level other p),
       update_calls := update_calls (loop_plug_with no_callback now level other p),
       last_toggle := last_toggle (loop_plug_with no_callback now level other p)\<rparr> \<and>
   (bound_light s \<and> DEBOUNCE_DELAY < now - last_toggle s \<longrightarrow>
      pin_writes (loop_light now False s) =
      pin_writes (snd (on_attribute_update_light PRE_UPDATE (light_endpoint_id s) CLUSTER_ID
        ATTRIBUTE_ID
        (set_b (\<not> val_b (get_onoff_attribute_value s)) (get_onoff_attribute_value s)) s)))"
proof (intro conjI impI)
  assume "\<forall>t e c a v x. pin_writes (snd (cb t e c a v x)) = pin_writes x"
  then show "pin_writes (loop_light_with cb now level s) = pin_writes s"
    by (simp add: loop_light_with_pin_writes)
next
  show "loop_light_with no_callback now level s =
     s\<lparr>store := store (loop_light_with no_callback now level s),
       update_calls := update_calls (loop_light_with no_callback now level s),
       last_toggle := last_toggle (loop_light_with no_callback now level s)\<rparr>"
    by (rule loop_light_with_no_callback)
next
  assume "\<forall>t e c a v x. pin_writes (snd (cbp t e c a v x)) = pin_writes x"
  then show "pin_writes (loop_plug_with cbp now level other p) = pin_writes p"
    by (simp add: loop_plug_with_pin_writes)
next
  show "loop_plug_with no_callback now level other p =
     p\<lparr>store := store (loop_plug_with no_callback now level other p),
       update_calls := update_calls (loop_plug_with no_callback now level other p),
       last_toggle := last_toggle (loop_plug_with no_callback now level other p)\<rparr>"
    by (rule loop_plug_with_no_callback)
next
  assume "bound_light s \<and> DEBOUNCE_DELAY < now - last_toggle s"
  then show "pin_writes (loop_light now False s) =
      pin_writes (snd (on_attribute_update_light PRE_UPDATE (light_endpoint_id s) CLUSTER_ID
        ATTRIBUTE_ID
        (set_b (\<not> val_b (get_onoff_attribute_value s)) (get_onoff_attribute_value s)) s))"
    by (simp add: loop_light_echo)
qed

theorem loop_writes_no_pin_witness:
  "pin_writes (loop_light_with no_callback 501 False (setup_light 1 boot_light)) = [] \<and>
   pin_writes (loop_plug_with no_callback 501 False False (setup_plug 1 2 boot_plug)) = [] \<and>
   pin_writes (loop_light 501 False (setup_light 1 boot_light)) = [(LED_PIN, True)]"
proof -
  have n: "\<forall>t e c a v x. pin_writes (snd ((no_callback :: light callback) t e c a v x)) = pin_writes x"
    "\<forall>t e c a v x. pin_writes (snd ((no_callback :: plug callback) t e c a v x)) = pin_writes x"
    by (simp_all add: no_callback_def)
  have w: "DEBOUNCE_DELAY < 501 - last_toggle (setup_light 1 boot_light)"
    using window_501 by (simp add: setup_light_fields boot_fields)
  have e: "pin_writes (setup_light 1 boot_light) = []" "pin_writes (setup_plug 1 2 boot_plug) = []"
    by (simp_all add: setup_light_fields setup_plug_fields boot_fields)
  have g: "get_onoff_attribute_value (setup_light 1 boot_light) = esp_matter_bool False"
    by (simp add: get_onoff_attribute_value_def attribute_get_val_def setup_light_fields)
  have h: "pin_writes (snd (on_attribute_update_light PRE_UPDATE
        (light_endpoint_id (setup_light 1 boot_light)) CLUSTER_ID ATTRIBUTE_ID
        (set_b (\<not> val_b (esp_matter_bool False)) (esp_matter_bool False))
        (setup_light 1 boot_light))) = [(LED_PIN, True)]"
    by (simp add: on_attribute_update_light_hit e toggled_differs)
       (simp add: val_b_def esp_matter_bool_def)
  show ?thesis
    using loop_writes_no_pin [where cb = no_callback and cbp = no_callback and now = 501
        and level = False and other = False and s = "setup_light 1 boot_light"
        and p = "setup_plug 1 2 boot_plug"]
      n w e h setup_light_bound [of 1 boot_light]
    unfolding g by metis
qed

section \<open>The lost update\<close>

lemma bound_light_frame:
  "bound_light (s\<lparr>last_toggle := x\<rparr>) = bound_light s"
  "bound_light (s\<lparr>update_calls := y\<rparr>) = bound_light s"
  by (simp_all add: bound_light_def)

lemma commit_light_bound:
  assumes "bound_light s"
  shows "get_onoff_attribute_value
           (commit on_attribute_update_light (light_endpoint_id s) CLUSTER_ID ATTRIBUTE_ID v s) = v"
    and "bound_light (commit on_attribute_update_light e c a v s)"
  using assms
  by (auto simp: bound_light_def get_onoff_attribute_value_def attribute_get_val_def commit_light)

lemma interleave_light_atomic:
  "fst (interleave_light [Loop_read now level, Loop_write] (s, None)) = loop_light now level s"
  by (simp add: loop_light_def loop_light_with_def Let_def)

text \<open>
  C8: nothing guards the read and the write of a toggle. In the interleaving where a
  remote write of the attribute is committed after \<open>loop\<close> has read the attribute and
  before it writes, the remote value is in the storage when \<open>loop\<close> writes, and the
  write replaces it by the inverse of the value read before: the attribute ends as the
  negation of what it was before the race, whatever the remote write was. Without a
  remote write in between, the two halves of the pass are the pass of \<open>loop\<close>.
\<close>

theorem lost_update:
  "fst (interleave_light [Loop_read now level, Loop_write] (s, None)) = loop_light now level s \<and>
   (bound_light s \<and> DEBOUNCE_DELAY < now - last_toggle s \<longrightarrow>
      get_onoff_attribute_value (fst (interleave_light
         [Loop_read now False,
          Remote_write (light_endpoint_id s) CLUSTER_ID ATTRIBUTE_ID w] (s, None))) = w \<and>
      get_onoff_attribute_value (fst (interleave_light
         [Loop_read now False,
          Remote_write (light_endpoint_id s) CLUSTER_ID ATTRIBUTE_ID w,
          Loop_write] (s, None))) =
        set_b (\<not> val_b (get_onoff_attribute_value s)) (get_onoff_attribute_value s))"
proof (intro conjI impI)
  show "fst (interleave_light [Loop_read now level, Loop_write] (s, None)) = loop_light now level s"
    by (rule interleave_light_atomic)
next
  assume a: "bound_light s \<and> DEBOUNCE_DELAY < now - last_toggle s"
  let ?s1 = "s\<lparr>last_toggle := now\<rparr>"
  let ?s2 = "commit on_attribute_update_light (light_endpoint_id s) CLUSTER_ID ATTRIBUTE_ID w ?s1"
  let ?v = "set_b (\<not> val_b (get_onoff_attribute_value s)) (get_onoff_attribute_value s)"
  have b1: "bound_light ?s1"
    using a by (simp add: bound_light_frame)
  have read: "interleave_light
         [Loop_read now False,
          Remote_write (light_endpoint_id s) CLUSTER_ID ATTRIBUTE_ID w] (s, None) =
        (?s2, Some (get_onoff_attribute_value s))"
    using a by (simp add: Let_def get_onoff_frame)
  have landed: "get_onoff_attribute_value ?s2 = w"
    using commit_light_bound(1) [OF b1] by simp
  show "get_onoff_attribute_value (fst (interleave_light
         [Loop_read now False,
          Remote_write (light_endpoint_id s) CLUSTER_ID ATTRIBUTE_ID w] (s, None))) = w"
    unfolding read using landed by simp
  have b2: "bound_light (?s2\<lparr>update_calls := update_calls ?s2 @
              [((light_endpoint_id ?s2, CLUSTER_ID, ATTRIBUTE_ID), ?v)]\<rparr>)"
    using commit_light_bound(2) [OF b1] by (simp add: bound_light_frame)
  have "interleave_light
         [Loop_read now False,
          Remote_write (light_endpoint_id s) CLUSTER_ID ATTRIBUTE_ID w,
          Loop_write] (s, None) =
        (set_onoff_attribute_value on_attribute_update_light ?v ?s2, None)"
    using a by (simp add: Let_def get_onoff_frame)
  moreover have "get_onoff_attribute_value
        (set_onoff_attribute_value on_attribute_update_light ?v ?s2) = ?v"
    using commit_light_bound(1) [OF b2]
    by (simp add: set_onoff_attribute_value_def attribute_update_def)
  ultimately show "get_onoff_attribute_value (fst (interleave_light
         [Loop_read now False,
          Remote_write (light_endpoint_id s) CLUSTER_ID ATTRIBUTE_ID w,
          Loop_write] (s, None))) =
        set_b (\<not> val_b (get_onoff_attribute_value s)) (get_onoff_attribute_value s)"
    by simp
qed

theorem lost_update_witness:
  "get_onoff_attribute_value (fst (interleave_light
      [Loop_read 501 False, Remote_write 1 CLUSTER_ID ATTRIBUTE_ID (esp_matter_bool False)]
      (setup_light 1 boot_light, None))) = esp_matter_bool False \<and>
   get_onoff_attribute_value (fst (interleave_light
      [Loop_read 501 False, Remote_write 1 CLUSTER_ID ATTRIBUTE_ID (esp_matter_bool False),
       Loop_write] (setup_light 1 boot_light, None))) = esp_matter_bool True"
proof -
  have w: "DEBOUNCE_DELAY < 501 - last_toggle (setup_light 1 boot_light)"
    using window_501 by (simp add: setup_light_fields boot_fields)
  have i: "light_endpoint_id (setup_light 1 boot_light) = 1"
    by (simp add: setup_light_fields)
  have g: "get_onoff_attribute_value (setup_light 1 boot_light) = esp_matter_bool False"
    by (simp add: get_onoff_attribute_value_def attribute_get_val_def setup_light_fields)
  have n: "set_b (\<not> val_b (esp_matter_bool False)) (esp_matter_bool False) = esp_matter_bool True"
    by (simp add: set_b_def val_b_def esp_matter_bool_def)
  show ?thesis
    using lost_update [where s = "setup_light 1 boot_light" and now = 501
        and w = "esp_matter_bool False"]
      w setup_light_bound [of 1 boot_light]
    unfolding i g n by blast
qed

section \<open>The debounce window\<close>

lemma window_of_nat: "r \<le> 501 \<Longrightarrow> (DEBOUNCE_DELAY < (of_nat r :: 32 word)) = (r = 501)"
  by (auto simp: DEBOUNCE_DELAY_def word_less_nat_alt unat_of_nat)

lemma window_real:
  assumes "DEBOUNCE_DELAY < millis t - millis L" "L \<le> t"
  shows "L + 500 < t"
proof -
  have "millis t - millis L = (of_nat (t - L) :: 32 word)"
    using assms(2) by (simp add: millis_def)
  then have "500 < (t - L) mod 2 ^ 32"
    using assms(1) by (simp add: DEBOUNCE_DELAY_def word_less_nat_alt unat_of_nat)
  moreover have "(t - L) mod 2 ^ 32 \<le> t - L" by simp
  ultimately show ?thesis by linarith
qed

lemma loop_light_idle:
  "\<not> DEBOUNCE_DELAY < now - last_toggle s \<or> level \<Longrightarrow> loop_light now level s = s"
  by (simp add: loop_light_def loop_light_with_idle)

lemma loop_light_fire:
  assumes "DEBOUNCE_DELAY < now - last_toggle s"
  shows "last_toggle (loop_light now False s) = now"
    and "update_calls (loop_light now False s) =
           update_calls s @
           [((light_endpoint_id s, CLUSTER_ID, ATTRIBUTE_ID),
             set_b (\<not> val_b (get_onoff_attribute_value s)) (get_onoff_attribute_value s))]"
    and "light_endpoint_id (loop_light now False s) = light_endpoint_id s"
  using assms by (simp_all add: loop_light_def loop_light_with_fire commit_light)

lemma loop_curtain_idle:
  "\<not> DEBOUNCE_DELAY < now - last_toggle u \<Longrightarrow> loop_curtain now level u = u"
  by (simp add: loop_curtain_def loop_curtain_with_def)

lemma early_poll: "t \<le> 500 \<Longrightarrow> \<not> DEBOUNCE_DELAY < millis t - 0"
  by (simp add: millis_def DEBOUNCE_DELAY_def word_less_nat_alt unat_of_nat)

lemma run_light_early:
  "last_toggle s = 0 \<Longrightarrow> \<forall>t\<in>set (poll_times evs). t \<le> 500 \<Longrightarrow>
   update_calls (run_light evs s) = update_calls s \<and> last_toggle (run_light evs s) = 0"
proof (induction evs arbitrary: s)
  case Nil
  then show ?case by simp
next
  case (Cons ev evs)
  show ?case
  proof (cases ev)
    case (Poll t level)
    then have "loop_light (millis t) level s = s"
      using Cons.prems early_poll [of t] by (simp add: loop_light_idle)
    then show ?thesis
      using Cons Poll by simp
  next
    case (Remote e c a v)
    then show ?thesis
      using Cons.IH [of "commit on_attribute_update_light e c a v s"] Cons.prems
      by (simp add: commit_light)
  qed
qed

lemma run_plug_early:
  "last_toggle p = 0 \<Longrightarrow> \<forall>t\<in>set (poll_times evs). t \<le> 500 \<Longrightarrow>
   update_calls (run_plug evs p) = update_calls p \<and> last_toggle (run_plug evs p) = 0"
proof (induction evs arbitrary: p)
  case Nil
  then show ?case by simp
next
  case (Cons ev evs)
  show ?case
  proof (cases ev)
    case (Poll t levels)
    then have "loop_plug (millis t) (fst levels) (snd levels) p = p"
      using Cons.prems early_poll [of t] by (simp add: loop_plug_def loop_plug_idle)
    then show ?thesis
      using Cons Poll by simp
  next
    case (Remote e c a v)
    then show ?thesis
      using Cons.IH [of "commit on_attribute_update_plug e c a v p"] Cons.prems
      by (simp add: commit_plug)
  qed
qed

lemma run_curtain_early:
  "last_toggle u = 0 \<Longrightarrow> \<forall>t\<in>set (poll_times evs). t \<le> 500 \<Longrightarrow>
   update_calls (run_curtain evs u) = update_calls u \<and> last_toggle (run_curtain evs u) = 0"
proof (induction evs arbitrary: u)
  case Nil
  then show ?case by simp
next
  case (Cons ev evs)
  show ?case
  proof (cases ev)
    case (Poll t level)
    then have "loop_curtain (millis t) level u = u"
      using Cons.prems early_poll [of t] by (simp add: loop_curtain_idle)
    then show ?thesis
      using Cons Poll by simp
  next
    case (Remote e c a v)
    then show ?thesis
      using Cons.IH [of "commit on_attribute_update_curtain e c a v u"] Cons.prems
      by (simp add: commit_curtain_frame)
  qed
qed

text \<open>
  C10: \<open>last_toggle\<close> is zero when the device boots, and \<open>setup\<close> leaves it zero. In
  every sketch, a run whose passes of \<open>loop\<close> are all within the first
  \<open>DEBOUNCE_DELAY\<close> (500) milliseconds after boot makes no toggle, whatever the buttons
  read and whatever the remote writes are: no call of \<open>attribute::update\<close> is made and
  \<open>last_toggle\<close> is still zero.
\<close>

theorem no_toggle_after_boot:
  "last_toggle boot_light = 0 \<and> last_toggle boot_plug = 0 \<and> last_toggle boot_curtain = 0 \<and>
   ((\<forall>t\<in>set (poll_times evs). t \<le> unat DEBOUNCE_DELAY) \<longrightarrow>
      update_calls (run_light evs (setup_light eid boot_light)) = [] \<and>
      last_toggle (run_light evs (setup_light eid boot_light)) = 0 \<and>
      update_calls (run_curtain evs (setup_curtain eid boot_curtain)) = [] \<and>
      last_toggle (run_curtain evs (setup_curtain eid boot_curtain)) = 0) \<and>
   ((\<forall>t\<in>set (poll_times evp). t \<le> unat DEBOUNCE_DELAY) \<longrightarrow>
      update_calls (run_plug evp (setup_plug eid eid' boot_plug)) = [] \<and>
      last_toggle (run_plug evp (setup_plug eid eid' boot_plug)) = 0)"
proof (intro conjI impI)
  show "last_toggle boot_light = 0" "last_toggle boot_plug = 0" "last_toggle boot_curtain = 0"
    by (simp_all add: boot_fields)
next
  assume "\<forall>t\<in>set (poll_times evs). t \<le> unat DEBOUNCE_DELAY"
  then have a: "\<forall>t\<in>set (poll_times evs). t \<le> 500"
    by (simp add: DEBOUNCE_DELAY_def)
  have l: "last_toggle (setup_light eid boot_light) = 0"
    and u: "last_toggle (setup_curtain eid boot_curtain) = 0"
    by (simp_all add: setup_light_fields setup_curtain_fields boot_fields)
  show "update_calls (run_light evs (setup_light eid boot_light)) = []"
    "last_toggle (run_light evs (setup_light eid boot_light)) = 0"
    using run_light_early [OF l a] by (simp_all add: setup_light_fields boot_fields)
  show "update_calls (run_curtain evs (setup_curtain eid boot_curtain)) = []"
    "last_toggle (run_curtain evs (setup_curtain eid boot_curtain)) = 0"
    using run_curtain_early [OF u a] by (simp_all add: setup_curtain_fields boot_fields)
next
  assume "\<forall>t\<in>set (poll_times evp). t \<le> unat DEBOUNCE_DELAY"
  then have a: "\<forall>t\<in>set (poll_times evp). t \<le> 500"
    by (simp add: DEBOUNCE_DELAY_def)
  have p: "last_toggle (setup_plug eid eid' boot_plug) = 0"
    by (simp add: setup_plug_fields boot_fields)
  show "update_calls (run_plug evp (setup_plug eid eid' boot_plug)) = []"
    "last_toggle (run_plug evp (setup_plug eid eid' boot_plug)) = 0"
    using run_plug_early [OF p a] by (simp_all add: setup_plug_fields boot_fields)
qed

theorem no_toggle_after_boot_witness:
  "update_calls (run_light [Poll 100 False, Remote 1 CLUSTER_ID ATTRIBUTE_ID (esp_matter_bool True),
      Poll 500 False] (setup_light 1 boot_light)) = [] \<and>
   update_calls (run_curtain [Poll 100 False, Poll 500 False] (setup_curtain 1 boot_curtain)) = [] \<and>
   update_calls (run_plug [Poll 100 (False, False), Poll 500 (True, False)]
      (setup_plug 1 2 boot_plug)) = []"
proof -
  have a: "\<forall>t\<in>set (poll_times [Poll 100 False,
      Remote 1 CLUSTER_ID ATTRIBUTE_ID (esp_matter_bool True), Poll 500 False]).
      t \<le> unat DEBOUNCE_DELAY"
    by (simp add: DEBOUNCE_DELAY_def)
  have b: "\<forall>t\<in>set (poll_times [Poll 100 False, Poll 500 False]). t \<le> unat DEBOUNCE_DELAY"
    by (simp add: DEBOUNCE_DELAY_def)
  have c: "\<forall>t\<in>set (poll_times [Poll 100 (False, False), Poll 500 (True, False)]).
      t \<le> unat DEBOUNCE_DELAY"
    by (simp add: DEBOUNCE_DELAY_def)
  show ?thesis
    using a b c
      no_toggle_after_boot [where eid = 1 and eid' = 2
        and evs = "[Poll 100 False, Remote 1 CLUSTER_ID ATTRIBUTE_ID (esp_matter_bool True),
                    Poll 500 False]"
        and evp = "[Poll 100 (False, False), Poll 500 (True, False)]"]
      no_toggle_after_boot [where eid = 1 and eid' = 2
        and evs = "[Poll 100 False, Poll 500 False]"
        and evp = "[Poll 100 (False, False), Poll 500 (True, False)]"]
    by blast
qed

section \<open>A held button\<close>

lemma dense_le_last: "dense (t # ts) \<Longrightarrow> t \<le> last (t # ts)"
proof (induction ts arbitrary: t)
  case Nil
  then show ?case by simp
next
  case (Cons a ts)
  then have "a \<le> last (a # ts)" and "t \<le> a" by auto
  then show ?case by simp
qed

lemma dense_upt: "dense [a..<b]"
proof (induction "b - a" arbitrary: a)
  case 0
  then show ?case by simp
next
  case (Suc n)
  then have ab: "a < b" and n: "n = b - Suc a" by auto
  have d: "dense [Suc a..<b]" using Suc(1) [OF n] .
  show ?case
  proof (cases "Suc a < b")
    case True
    then have "[a..<b] = a # Suc a # [Suc (Suc a)..<b]"
      using ab by (simp add: upt_conv_Cons)
    moreover have "[Suc a..<b] = Suc a # [Suc (Suc a)..<b]"
      using True by (simp add: upt_conv_Cons)
    ultimately show ?thesis using d by simp
  next
    case False
    then have "[a..<b] = [a]" using ab by (simp add: upt_conv_Cons)
    then show ?thesis by simp
  qed
qed

text \<open>
  The count of toggles while the button is held, from a state in which \<open>r\<close>
  milliseconds, at most 501, have passed since \<open>last_toggle\<close> at the first pass.
\<close>

lemma held_count:
  "dense ts \<Longrightarrow> ts \<noteq> [] \<Longrightarrow> r \<le> 501 \<Longrightarrow> last_toggle s = millis (hd ts) - of_nat r \<Longrightarrow>
   length (update_calls (run_light (held ts) s)) =
   length (update_calls s) + (last ts - hd ts + r) div 501"
proof (induction ts arbitrary: r s rule: dense.induct)
  case 1
  then show ?case by simp
next
  case (2 t)
  have e: "millis t - last_toggle s = of_nat r" using 2 by simp
  show ?case
  proof (cases "r = 501")
    case True
    then have w: "DEBOUNCE_DELAY < millis t - last_toggle s"
      using e window_of_nat [of r] by simp
    show ?thesis
      using True by (simp add: held_def loop_light_fire(2) [OF w])
  next
    case False
    then have w: "\<not> DEBOUNCE_DELAY < millis t - last_toggle s"
      using e window_of_nat [of r] 2 by simp
    then have "loop_light (millis t) False s = s"
      by (simp add: loop_light_idle)
    then show ?thesis using False 2 by (simp add: held_def)
  qed
next
  case (3 t t' ts)
  define l where "l = last (t' # ts)"
  have e: "millis t - last_toggle s = of_nat r" using 3 by simp
  have d: "dense (t' # ts)" and tt: "t' = t \<or> t' = Suc t" using 3(2) by simp_all
  have run: "run_light (held (t # t' # ts)) s =
             run_light (held (t' # ts)) (loop_light (millis t) False s)"
    by (simp add: held_def)
  have lasts: "last (t # t' # ts) = l" by (simp add: l_def)
  have hds: "hd (t # t' # ts) = t" "hd (t' # ts) = t'" by simp_all
  have le: "t' \<le> l"
    unfolding l_def using d by (rule dense_le_last)
  show ?case
  proof (cases "r = 501")
    case True
    then have w: "DEBOUNCE_DELAY < millis t - last_toggle s"
      using e window_of_nat [of r] by simp
    let ?s = "loop_light (millis t) False s"
    have lt: "last_toggle ?s = millis (hd (t' # ts)) - of_nat (t' - t)"
      using loop_light_fire(1) [OF w] tt by (auto simp: millis_def)
    have "length (update_calls (run_light (held (t' # ts)) ?s)) =
          length (update_calls ?s) + (last (t' # ts) - hd (t' # ts) + (t' - t)) div 501"
      by (rule 3(1) [OF d _ _ lt]) (use tt in auto)
    then have "length (update_calls (run_light (held (t' # ts)) ?s)) =
          length (update_calls ?s) + (l - t' + (t' - t)) div 501"
      unfolding hds l_def .
    moreover have "length (update_calls ?s) = Suc (length (update_calls s))"
      by (simp add: loop_light_fire(2) [OF w])
    moreover have "l - t' + (t' - t) = l - t" using tt le by auto
    ultimately show ?thesis using True unfolding run lasts hds by simp
  next
    case False
    then have r: "r \<le> 500" using 3 by simp
    then have w: "\<not> DEBOUNCE_DELAY < millis t - last_toggle s"
      using e window_of_nat [of r] by simp
    then have same: "loop_light (millis t) False s = s"
      by (simp add: loop_light_idle)
    have lt: "last_toggle s = millis (hd (t' # ts)) - of_nat (r + (t' - t))"
      using 3(5) tt by (auto simp: millis_def)
    have "length (update_calls (run_light (held (t' # ts)) s)) =
          length (update_calls s) + (last (t' # ts) - hd (t' # ts) + (r + (t' - t))) div 501"
      by (rule 3(1) [OF d _ _ lt]) (use tt r in auto)
    then have "length (update_calls (run_light (held (t' # ts)) s)) =
          length (update_calls s) + (l - t' + (r + (t' - t))) div 501"
      unfolding hds l_def .
    moreover have "l - t' + (r + (t' - t)) = l - t + r" using tt le by auto
    ultimately show ?thesis unfolding run lasts same hds by simp
  qed
qed

text \<open>The same count from an armed poller: the first pass toggles.\<close>

lemma held_toggles:
  assumes "DEBOUNCE_DELAY < millis (hd ts) - last_toggle s" "dense ts" "ts \<noteq> []"
  shows "toggles_light (held ts) s = (last ts - hd ts) div 501 + 1"
proof -
  obtain t rest where ts: "ts = t # rest"
    using assms(3) by (cases ts) auto
  have w: "DEBOUNCE_DELAY < millis t - last_toggle s"
    using assms(1) ts by simp
  let ?s = "loop_light (millis t) False s"
  have first: "length (update_calls ?s) = Suc (length (update_calls s))"
    by (simp add: loop_light_fire(2) [OF w])
  have "length (update_calls (run_light (held ts) s)) =
        length (update_calls s) + (last ts - hd ts) div 501 + 1"
  proof (cases rest)
    case Nil
    then show ?thesis using ts first by (simp add: held_def)
  next
    case (Cons t' rest')
    have d: "dense (t' # rest')" and tt: "t' = t \<or> t' = Suc t"
      using assms(2) ts Cons by simp_all
    have le: "t' \<le> last (t' # rest')"
      using d by (rule dense_le_last)
    have lt: "last_toggle ?s = millis (hd (t' # rest')) - of_nat (t' - t)"
      using loop_light_fire(1) [OF w] tt by (auto simp: millis_def)
    have "length (update_calls (run_light (held (t' # rest')) ?s)) =
          length (update_calls ?s) + (last (t' # rest') - hd (t' # rest') + (t' - t)) div 501"
      by (rule held_count [OF d _ _ lt]) (use tt in auto)
    moreover have "last (t' # rest') - hd (t' # rest') + (t' - t) = last (t' # rest') - t"
      using tt le by auto
    moreover have "run_light (held ts) s = run_light (held (t' # rest')) ?s"
      using ts Cons by (simp add: held_def)
    moreover have "last ts = last (t' # rest')" "hd ts = t"
      using ts Cons by simp_all
    ultimately show ?thesis using first by simp
  qed
  then show ?thesis
    by (simp add: toggles_light_def new_calls_def)
qed

lemma upt_nonempty: "a < b \<Longrightarrow> [a..<b] \<noteq> []"
  by simp

lemma upt_span: "a < b \<Longrightarrow> last [a..<b] - hd [a..<b] = b - 1 - a"
  by (simp add: last_upt)

lemma held_upt_toggles:
  assumes "a < b" "DEBOUNCE_DELAY < millis a - last_toggle s"
  shows "toggles_light (held [a..<b]) s = (b - 1 - a) div 501 + 1"
proof -
  have "DEBOUNCE_DELAY < millis (hd [a..<b]) - last_toggle s"
    using assms by simp
  then have "toggles_light (held [a..<b]) s = (last [a..<b] - hd [a..<b]) div 501 + 1"
    using assms(1) by (intro held_toggles dense_upt) simp_all
  then show ?thesis
    using assms(1) by (simp add: last_upt)
qed

text \<open>
  C6 (amended): in the light sketch, a button held down while \<open>loop\<close> passes at least
  once in every millisecond, from a pass at which the poller is armed, makes one toggle
  at the first pass and one more each time 501 milliseconds (\<open>DEBOUNCE_DELAY\<close> and
  one) have passed: the poller fires again on the level of the pin, with no release in
  between. With \<open>d\<close> milliseconds between the first and the last pass of the press
  that is \<open>d div 501 + 1\<close> toggles. So a press held for \<open>k\<close> windows, for \<open>k\<close> from 1
  to 501, makes \<open>k\<close> toggles, and a press held longer than the window and shorter than
  twice the window makes two toggles.
\<close>

theorem held_button_repeats:
  "(DEBOUNCE_DELAY < millis (hd ts) - last_toggle s \<and> dense ts \<and> ts \<noteq> [] \<longrightarrow>
      toggles_light (held ts) s = (last ts - hd ts) div (unat DEBOUNCE_DELAY + 1) + 1) \<and>
   (DEBOUNCE_DELAY < millis (hd ts) - last_toggle s \<and> dense ts \<and> ts \<noteq> [] \<and>
    last ts - hd ts = k * unat DEBOUNCE_DELAY \<and> 1 \<le> k \<and> k \<le> 501 \<longrightarrow>
      toggles_light (held ts) s = k) \<and>
   (DEBOUNCE_DELAY < millis (hd ts) - last_toggle s \<and> dense ts \<and> ts \<noteq> [] \<and>
    unat DEBOUNCE_DELAY < last ts - hd ts \<and> last ts - hd ts < 2 * unat DEBOUNCE_DELAY \<longrightarrow>
      toggles_light (held ts) s = 2)"
proof (intro conjI impI)
  assume "DEBOUNCE_DELAY < millis (hd ts) - last_toggle s \<and> dense ts \<and> ts \<noteq> []"
  then show "toggles_light (held ts) s = (last ts - hd ts) div (unat DEBOUNCE_DELAY + 1) + 1"
    by (simp add: held_toggles DEBOUNCE_DELAY_def)
next
  assume a: "DEBOUNCE_DELAY < millis (hd ts) - last_toggle s \<and> dense ts \<and> ts \<noteq> [] \<and>
    last ts - hd ts = k * unat DEBOUNCE_DELAY \<and> 1 \<le> k \<and> k \<le> 501"
  then have "toggles_light (held ts) s = (k * 500) div 501 + 1"
    by (simp add: held_toggles DEBOUNCE_DELAY_def)
  moreover have "(k * 500) div 501 = k - 1"
    using a by (intro div_nat_eqI) auto
  ultimately show "toggles_light (held ts) s = k"
    using a by simp
next
  assume a: "DEBOUNCE_DELAY < millis (hd ts) - last_toggle s \<and> dense ts \<and> ts \<noteq> [] \<and>
    unat DEBOUNCE_DELAY < last ts - hd ts \<and> last ts - hd ts < 2 * unat DEBOUNCE_DELAY"
  then have "toggles_light (held ts) s = (last ts - hd ts) div 501 + 1"
    by (simp add: held_toggles)
  moreover have "(last ts - hd ts) div 501 = 1"
    using a by (intro div_nat_eqI) (auto simp: DEBOUNCE_DELAY_def)
  ultimately show "toggles_light (held ts) s = 2"
    by simp
qed

theorem held_button_repeats_witness:
  "toggles_light (held [1000..<2001]) (setup_light 1 boot_light) = 2 \<and>
   toggles_light (held [1000..<1801]) (setup_light 1 boot_light) = 2"
proof -
  have h: "hd [1000..<2001] = (1000 :: nat)" "hd [1000..<1801] = (1000 :: nat)"
    by (rule hd_upt, simp)+
  have w: "DEBOUNCE_DELAY < millis (hd [1000..<2001]) - last_toggle (setup_light 1 boot_light)"
    "DEBOUNCE_DELAY < millis (hd [1000..<1801]) - last_toggle (setup_light 1 boot_light)"
    unfolding h
    by (simp_all add: setup_light_fields boot_fields millis_def DEBOUNCE_DELAY_def)
  have n: "[1000..<2001] \<noteq> ([] :: nat list)" "[1000..<1801] \<noteq> ([] :: nat list)"
    by (rule upt_nonempty, simp)+
  have "last [1000..<2001] - hd [1000..<2001] = (2001 :: nat) - 1 - 1000"
    by (rule upt_span) simp
  also have "(2001 :: nat) - 1 - 1000 = 2 * unat DEBOUNCE_DELAY"
    by (simp add: DEBOUNCE_DELAY_def)
  finally have l1: "last [1000..<2001] - hd [1000..<2001] = 2 * unat DEBOUNCE_DELAY" .
  have "last [1000..<1801] - hd [1000..<1801] = (1801 :: nat) - 1 - 1000"
    by (rule upt_span) simp
  also have "(1801 :: nat) - 1 - 1000 = 800"
    by simp
  finally have sp: "last [1000..<1801] - hd [1000..<1801] = 800" .
  have l2: "unat DEBOUNCE_DELAY < last [1000..<1801] - hd [1000..<1801]"
    "last [1000..<1801] - hd [1000..<1801] < 2 * unat DEBOUNCE_DELAY"
    unfolding sp by (simp_all add: DEBOUNCE_DELAY_def)
  have k: "(1 :: nat) \<le> 2" "(2 :: nat) \<le> 501"
    by simp_all
  show ?thesis
    using held_button_repeats [where ts = "[1000..<2001]" and s = "setup_light 1 boot_light"
        and k = 2]
      held_button_repeats [where ts = "[1000..<1801]" and s = "setup_light 1 boot_light"
        and k = 2]
      w n l1 l2 k dense_upt [of 1000 2001] dense_upt [of 1000 1801]
    by blast
qed

text \<open>
  The claim as stated fails: a press held for 700 milliseconds, longer than the window
  and shorter than twice the window, with a pass of \<open>loop\<close> in every millisecond from
  1000 to 1700 after boot, makes two toggles and not one.
\<close>

theorem held_button_repeats_counterexample:
  "toggles_light (held [1000..<1701]) (setup_light 1 boot_light) = 2"
proof -
  have "toggles_light (held [1000..<1701]) (setup_light 1 boot_light) =
        (1701 - 1 - 1000) div 501 + 1"
    by (rule held_upt_toggles)
       (simp_all add: setup_light_fields boot_fields millis_def DEBOUNCE_DELAY_def)
  also have "\<dots> = 2"
    by simp
  finally show ?thesis .
qed

section \<open>The time between two triggers\<close>

lemma sorted_wrt_spaced: "sorted_wrt (\<lambda>x y. x + d < y) xs \<Longrightarrow> spaced d xs"
  by (induction d xs rule: spaced.induct) auto

lemma fired_at_spaced:
  assumes "sorted_wrt (\<lambda>x y. snd x = snd y \<longrightarrow> fst x + d < fst y) trs"
  shows "spaced d (fired_at e trs)"
proof -
  have "sorted_wrt (\<lambda>x y. snd x = snd y \<longrightarrow> fst x + d < fst y) (filter (\<lambda>tr. snd tr = e) trs)"
    using assms by (rule sorted_wrt_filter)
  then have "sorted_wrt (\<lambda>x y. fst x + d < fst y) (filter (\<lambda>tr. snd tr = e) trs)"
    by (rule sorted_wrt_mono_rel [rotated]) auto
  then have "sorted_wrt (\<lambda>x y. x + d < y) (fired_at e trs)"
    by (simp add: fired_at_def sorted_wrt_map)
  then show ?thesis
    by (rule sorted_wrt_spaced)
qed

lemma new_calls_same: "new_calls s s = []"
  by (simp add: new_calls_def)

lemma triggers_light_spaced:
  "sorted (poll_times evs) \<Longrightarrow> last_toggle s = millis L \<Longrightarrow>
   \<forall>t\<in>set (poll_times evs). L \<le> t \<Longrightarrow>
   (\<forall>tr\<in>set (triggers_light evs s). L + 500 < fst tr) \<and>
   sorted_wrt (\<lambda>x y. snd x = snd y \<longrightarrow> fst x + 500 < fst y) (triggers_light evs s)"
proof (induction evs arbitrary: s L)
  case Nil
  then show ?case by simp
next
  case (Cons ev evs)
  show ?case
  proof (cases ev)
    case (Remote e c a v)
    have "last_toggle (commit on_attribute_update_light e c a v s) = millis L"
      using Cons.prems(2) by (simp add: commit_light)
    then show ?thesis
      using Cons.IH [of "commit on_attribute_update_light e c a v s" L] Cons.prems Remote
      by simp
  next
    case (Poll t level)
    have st: "sorted (poll_times evs)" and later: "\<forall>t'\<in>set (poll_times evs). t \<le> t'"
      and Lt: "L \<le> t" and Ls: "\<forall>t'\<in>set (poll_times evs). L \<le> t'"
      using Cons.prems(1,3) Poll by auto
    show ?thesis
    proof (cases "DEBOUNCE_DELAY < millis t - last_toggle s \<and> \<not> level")
      case True
      then have w: "DEBOUNCE_DELAY < millis t - last_toggle s" and lv: "level = False"
        by simp_all
      let ?s = "loop_light (millis t) False s"
      have gap: "L + 500 < t"
        using w Cons.prems(2) Lt by (simp add: window_real)
      have new: "map (\<lambda>call. (t, fst (fst call))) (new_calls s ?s) = [(t, light_endpoint_id s)]"
        by (simp add: new_calls_def loop_light_fire(2) [OF w])
      have ih: "(\<forall>tr\<in>set (triggers_light evs ?s). t + 500 < fst tr) \<and>
                sorted_wrt (\<lambda>x y. snd x = snd y \<longrightarrow> fst x + 500 < fst y) (triggers_light evs ?s)"
        using Cons.IH [of ?s t] st later loop_light_fire(1) [OF w] by simp
      have eq: "triggers_light (ev # evs) s = (t, light_endpoint_id s) # triggers_light evs ?s"
        using Poll lv new by simp
      show ?thesis
        unfolding eq using ih gap by auto
    next
      case False
      then have same: "loop_light (millis t) level s = s"
        using loop_light_idle by blast
      have eq: "triggers_light (ev # evs) s = triggers_light evs s"
        using Poll same by (simp add: new_calls_same)
      show ?thesis
        unfolding eq using Cons.IH [of s L] st Ls Cons.prems(2) by simp
    qed
  qed
qed

lemma triggers_plug_spaced:
  "sorted (poll_times evs) \<Longrightarrow> last_toggle p = millis L \<Longrightarrow>
   \<forall>t\<in>set (poll_times evs). L \<le> t \<Longrightarrow>
   plugin_unit_endpoint_id_1 p \<noteq> plugin_unit_endpoint_id_2 p \<Longrightarrow>
   (\<forall>tr\<in>set (triggers_plug evs p). L + 500 < fst tr) \<and>
   sorted_wrt (\<lambda>x y. snd x = snd y \<longrightarrow> fst x + 500 < fst y) (triggers_plug evs p)"
proof (induction evs arbitrary: p L)
  case Nil
  then show ?case by simp
next
  case (Cons ev evs)
  show ?case
  proof (cases ev)
    case (Remote e c a v)
    let ?p = "commit on_attribute_update_plug e c a v p"
    have "last_toggle ?p = millis L"
      "plugin_unit_endpoint_id_1 ?p \<noteq> plugin_unit_endpoint_id_2 ?p"
      using Cons.prems(2,4) by (simp_all add: commit_plug)
    then show ?thesis
      using Cons.IH [of ?p L] Cons.prems Remote by simp
  next
    case (Poll t levels)
    have st: "sorted (poll_times evs)" and later: "\<forall>t'\<in>set (poll_times evs). t \<le> t'"
      and Lt: "L \<le> t" and Ls: "\<forall>t'\<in>set (poll_times evs). L \<le> t'"
      using Cons.prems(1,3) Poll by auto
    let ?p = "loop_plug (millis t) (fst levels) (snd levels) p"
    have ids: "plugin_unit_endpoint_id_1 ?p \<noteq> plugin_unit_endpoint_id_2 ?p"
      using Cons.prems(4) by (simp add: loop_plug_fields)
    have new: "map (\<lambda>call. (t, fst (fst call))) (new_calls p ?p) =
               map (\<lambda>path. (t, fst path)) (map fst (new_calls p ?p))"
      by simp
    have eq: "triggers_plug (ev # evs) p =
              map (\<lambda>path. (t, fst path)) (map fst (new_calls p ?p)) @ triggers_plug evs ?p"
      using Poll by simp
    show ?thesis
    proof (cases "DEBOUNCE_DELAY < millis t - last_toggle p \<and> (\<not> fst levels \<or> \<not> snd levels)")
      case True
      then have w: "DEBOUNCE_DELAY < millis t - last_toggle p"
        by simp
      have gap: "L + 500 < t"
        using w Cons.prems(2) Lt by (simp add: window_real)
      have lt: "last_toggle ?p = millis t"
        using True by (simp add: loop_plug_last_toggle)
      have ih: "(\<forall>tr\<in>set (triggers_plug evs ?p). t + 500 < fst tr) \<and>
                sorted_wrt (\<lambda>x y. snd x = snd y \<longrightarrow> fst x + 500 < fst y) (triggers_plug evs ?p)"
        using Cons.IH [of ?p t] st later lt ids by simp
      define new where "new = map (\<lambda>path. (t, fst path)) (map fst (new_calls p ?p))"
      have new_t: "\<forall>x\<in>set new. fst x = t"
        by (auto simp: new_def)
      have new_sorted: "sorted_wrt (\<lambda>x y. snd x = snd y \<longrightarrow> fst x + 500 < fst y) new"
        unfolding new_def loop_plug_calls using w Cons.prems(4) by simp
      have later_gap: "\<forall>tr\<in>set (triggers_plug evs ?p). L + 500 < fst tr"
        using ih gap by fastforce
      have cross: "\<forall>x\<in>set new. \<forall>y\<in>set (triggers_plug evs ?p).
                     snd x = snd y \<longrightarrow> fst x + 500 < fst y"
        using ih new_t by simp
      have "\<forall>tr\<in>set (new @ triggers_plug evs ?p). L + 500 < fst tr"
        using new_t gap later_gap by auto
      moreover have "sorted_wrt (\<lambda>x y. snd x = snd y \<longrightarrow> fst x + 500 < fst y)
                       (new @ triggers_plug evs ?p)"
        using new_sorted ih cross by (simp add: sorted_wrt_append)
      ultimately show ?thesis
        unfolding eq new_def by simp
    next
      case False
      then have calls: "map fst (new_calls p ?p) = []"
        by (auto simp: loop_plug_calls)
      have "last_toggle ?p = millis L"
        using False Cons.prems(2) by (auto simp: loop_plug_last_toggle)
      then show ?thesis
        unfolding eq calls using Cons.IH [of ?p L] st Ls ids by simp
    qed
  qed
qed

text \<open>
  C7: in a run of the light sketch from \<open>setup\<close>, with the passes of \<open>loop\<close> in the
  order of time and any remote writes in between, two successive toggles of the
  channel are more than \<open>DEBOUNCE_DELAY\<close> milliseconds apart; so are two successive
  toggles of either channel of the sketch with two endpoints, whose endpoint ids are
  different. The times are the milliseconds since boot, not their 32-bit values, so
  this holds across the wrap-around of \<open>millis()\<close>.
\<close>

theorem triggers_are_spaced:
  "(sorted (poll_times evs) \<longrightarrow>
      spaced (unat DEBOUNCE_DELAY) (fired_at e (triggers_light evs (setup_light eid boot_light)))) \<and>
   (sorted (poll_times evp) \<and> eid \<noteq> eid' \<longrightarrow>
      spaced (unat DEBOUNCE_DELAY)
        (fired_at e (triggers_plug evp (setup_plug eid eid' boot_plug))))"
proof (intro conjI impI)
  assume "sorted (poll_times evs)"
  moreover have "last_toggle (setup_light eid boot_light) = millis 0"
    by (simp add: setup_light_fields boot_fields millis_def)
  ultimately have "sorted_wrt (\<lambda>x y. snd x = snd y \<longrightarrow> fst x + 500 < fst y)
      (triggers_light evs (setup_light eid boot_light))"
    using triggers_light_spaced [of evs "setup_light eid boot_light" 0] by simp
  then show "spaced (unat DEBOUNCE_DELAY)
      (fired_at e (triggers_light evs (setup_light eid boot_light)))"
    by (simp add: DEBOUNCE_DELAY_def fired_at_spaced)
next
  assume "sorted (poll_times evp) \<and> eid \<noteq> eid'"
  moreover have "last_toggle (setup_plug eid eid' boot_plug) = millis 0"
    by (simp add: setup_plug_fields boot_fields millis_def)
  ultimately have "sorted_wrt (\<lambda>x y. snd x = snd y \<longrightarrow> fst x + 500 < fst y)
      (triggers_plug evp (setup_plug eid eid' boot_plug))"
    using triggers_plug_spaced [of evp "setup_plug eid eid' boot_plug" 0]
    by (simp add: setup_plug_fields)
  then show "spaced (unat DEBOUNCE_DELAY)
      (fired_at e (triggers_plug evp (setup_plug eid eid' boot_plug)))"
    by (simp add: DEBOUNCE_DELAY_def fired_at_spaced)
qed

lemma light_run_example:
  "fired_at 1 (triggers_light
      [Poll 600 False, Poll 700 False, Remote 1 CLUSTER_ID ATTRIBUTE_ID (esp_matter_bool False),
       Poll 1200 False] (setup_light 1 boot_light)) = [600, 1200]"
  by (simp add: fired_at_def new_calls_def loop_light_fire loop_light_idle setup_light_fields
      boot_fields millis_def DEBOUNCE_DELAY_def commit_light)

lemma loop_plug_triggers:
  "map (\<lambda>call. (t, fst (fst call))) (new_calls p (loop_plug now l1 l2 p)) =
     (if DEBOUNCE_DELAY < now - last_toggle p then
        (if \<not> l1 then [(t, plugin_unit_endpoint_id_1 p)] else []) @
        (if \<not> l2 then [(t, plugin_unit_endpoint_id_2 p)] else [])
      else [])"
proof -
  have "map (\<lambda>call. (t, fst (fst call))) (new_calls p (loop_plug now l1 l2 p)) =
        map (\<lambda>path. (t, fst path)) (map fst (new_calls p (loop_plug now l1 l2 p)))"
    by simp
  then show ?thesis
    unfolding loop_plug_calls by simp
qed

lemma plug_run_example:
  "fired_at 1 (triggers_plug
      [Poll 600 (False, True), Poll 900 (True, False), Poll 1101 (False, False)]
      (setup_plug 1 2 boot_plug)) = [600, 1101]"
  by (simp add: fired_at_def loop_plug_triggers loop_plug_last_toggle loop_plug_fields
      setup_plug_fields boot_fields millis_def DEBOUNCE_DELAY_def)

theorem triggers_are_spaced_witness:
  "fired_at 1 (triggers_light
      [Poll 600 False, Poll 700 False, Remote 1 CLUSTER_ID ATTRIBUTE_ID (esp_matter_bool False),
       Poll 1200 False] (setup_light 1 boot_light)) = [600, 1200] \<and>
   spaced (unat DEBOUNCE_DELAY) (fired_at 1 (triggers_light
      [Poll 600 False, Poll 700 False, Remote 1 CLUSTER_ID ATTRIBUTE_ID (esp_matter_bool False),
       Poll 1200 False] (setup_light 1 boot_light))) \<and>
   fired_at 1 (triggers_plug
      [Poll 600 (False, True), Poll 900 (True, False), Poll 1101 (False, False)]
      (setup_plug 1 2 boot_plug)) = [600, 1101] \<and>
   spaced (unat DEBOUNCE_DELAY) (fired_at 1 (triggers_plug
      [Poll 600 (False, True), Poll 900 (True, False), Poll 1101 (False, False)]
      (setup_plug 1 2 boot_plug)))"
proof -
  have a: "sorted (poll_times [Poll 600 False, Poll 700 False,
      Remote 1 CLUSTER_ID ATTRIBUTE_ID (esp_matter_bool False), Poll 1200 False])"
    by simp
  have b: "sorted (poll_times [Poll 600 (False, True), Poll 900 (True, False),
      Poll 1101 (False, False)]) \<and> (1 :: 16 word) \<noteq> 2"
    by simp
  show ?thesis
    using a b light_run_example plug_run_example
      triggers_are_spaced [where e = 1 and eid = 1 and eid' = 2
        and evs = "[Poll 600 False, Poll 700 False,
                    Remote 1 CLUSTER_ID ATTRIBUTE_ID (esp_matter_bool False), Poll 1200 False]"
        and evp = "[Poll 600 (False, True), Poll 900 (True, False), Poll 1101 (False, False)]"]
    by blast
qed

end
